theory Spec2Isabelle
  imports Complex_Main "HOL-Library.Multiset"
begin

section \<open>Data model of \<open>src/item_filter.py\<close>\<close>

text \<open>
  A Python \<open>str\<close> is a sequence of Unicode code points, so a string is a list of
  natural numbers (the trademark glyph is code point 8482, beyond a byte).
  A Python \<open>float\<close> is idealised as a real number: rounding, infinities and NaN are
  outside the model.  A value that may be \<open>None\<close>, and a dictionary key that may be
  missing, is an \<open>option\<close>.
\<close>

type_synonym ustr = "nat list"

definition u :: "string \<Rightarrow> ustr" where
  "u s = map of_char s"

text \<open>One entry of \<open>recent_sales_prices\<close>.\<close>

record sale_info =
  si_price :: real
  si_date_time :: "ustr option"
  si_operation :: "ustr option"

text \<open>
  The dictionary built by \<open>transform_item\<close>.  \<open>name\<close> and \<open>wear\<close> are always set; every
  other key is set inside the \<open>try\<close> block and is missing (\<open>None\<close>) when an exception
  ended the block before its assignment.
\<close>

record analytic =
  name :: ustr
  wear :: "ustr option"
  sales :: "int option"
  recent_sales_prices :: "sale_info list option"
  offer_prices_list :: "real list option"
  offer_prices_quantity :: "nat option"
  target_price_list :: "real list option"
  target_price_list_quantity :: "nat option"
  profit_margin_pair1 :: "real option"
  profit_margin_pair2 :: "real option"
  average_recent_sale_price :: "real option"
  price_variance :: "real option"

section \<open>Thresholds\<close>

definition MIN_SALES_NORMAL :: int where
  "MIN_SALES_NORMAL = 15"

definition MIN_SALES_EXCEPTION :: int where
  "MIN_SALES_EXCEPTION = 7"

definition PRICE_CONSISTENCY_THRESHOLD_STRICT :: real where
  "PRICE_CONSISTENCY_THRESHOLD_STRICT = 1.20"

definition PRICE_CONSISTENCY_THRESHOLD_LOW_PRICE :: real where
  "PRICE_CONSISTENCY_THRESHOLD_LOW_PRICE = 4.2"

definition PROFIT_MARGIN_NORMAL :: real where
  "PROFIT_MARGIN_NORMAL = 1.15"

definition PROFIT_MARGIN_EXCEPTION :: real where
  "PROFIT_MARGIN_EXCEPTION = 1.30"

section \<open>Consistency and candidacy evaluator\<close>

text \<open>\<open>statistics.mean\<close> on a non-empty list.\<close>

definition mean :: "real list \<Rightarrow> real" where
  "mean xs = sum_list xs / real (length xs)"

text \<open>
  \<open>is_price_consistent\<close>: \<open>not prices\<close> is the empty-list test; \<open>min\<close> and \<open>max\<close> run
  over the non-empty list from its first element.
\<close>

definition is_price_consistent :: "real list \<Rightarrow> bool" where
  "is_price_consistent prices =
     (case prices of
        [] \<Rightarrow> False
      | p # ps \<Rightarrow>
          if fold min ps p = 0 then False
          else
            let ratio = fold max ps p / fold min ps p;
                avg_price = mean prices;
                threshold = (if avg_price < 5.0 then PRICE_CONSISTENCY_THRESHOLD_LOW_PRICE
                             else PRICE_CONSISTENCY_THRESHOLD_STRICT)
            in ratio \<le> threshold)"

text \<open>\<open>item.get("sales", 0)\<close>.\<close>

definition get_sales :: "analytic \<Rightarrow> int" where
  "get_sales item = (case sales item of None \<Rightarrow> 0 | Some s \<Rightarrow> s)"

text \<open>Truth value of \<open>item.get(key)\<close> for a list-valued key: missing and empty are false.\<close>

definition truthy_list :: "'a list option \<Rightarrow> bool" where
  "truthy_list v = (case v of None \<Rightarrow> False | Some xs \<Rightarrow> xs \<noteq> [])"

definition is_good_candidate :: "analytic \<Rightarrow> bool" where
  "is_good_candidate item =
     (let sales = get_sales item in
      if sales < MIN_SALES_EXCEPTION then False
      else if \<not> truthy_list (offer_prices_list item) \<or> \<not> truthy_list (target_price_list item)
      then False
      else True)"

text \<open>\<open>pm is not None and pm >= factor\<close>.\<close>

definition margin_reaches :: "real option \<Rightarrow> real \<Rightarrow> bool" where
  "margin_reaches pm factor = (case pm of None \<Rightarrow> False | Some m \<Rightarrow> m \<ge> factor)"

definition passes_profit_margin :: "analytic \<Rightarrow> bool" where
  "passes_profit_margin item =
     (let sales = get_sales item in
      if sales < MIN_SALES_EXCEPTION then False
      else
        let factor = (if sales \<ge> MIN_SALES_NORMAL then PROFIT_MARGIN_NORMAL
                      else PROFIT_MARGIN_EXCEPTION);
            pm1 = profit_margin_pair1 item;
            pm2 = profit_margin_pair2 item
        in if margin_reaches pm1 factor \<or> margin_reaches pm2 factor then True else False)"

text \<open>A record with every key of the \<open>try\<close> block missing.\<close>

definition bare :: "ustr \<Rightarrow> ustr option \<Rightarrow> analytic" where
  "bare n w =
     \<lparr>name = n, wear = w, sales = None, recent_sales_prices = None,
      offer_prices_list = None, offer_prices_quantity = None,
      target_price_list = None, target_price_list_quantity = None,
      profit_margin_pair1 = None, profit_margin_pair2 = None,
      average_recent_sale_price = None, price_variance = None\<rparr>"

section \<open>Text normalizer\<close>

text \<open>The code points for which Python's \<open>str.isspace\<close> holds; \<open>split()\<close> and \<open>strip()\<close> cut at them.\<close>

definition py_isspace :: "nat \<Rightarrow> bool" where
  "py_isspace c =
     ((9 \<le> c \<and> c \<le> 13) \<or> (28 \<le> c \<and> c \<le> 32) \<or> c = 133 \<or> c = 160 \<or> c = 5760
      \<or> (8192 \<le> c \<and> c \<le> 8202) \<or> c = 8232 \<or> c = 8233 \<or> c = 8239 \<or> c = 8287
      \<or> c = 12288)"

text \<open>\<open>s.strip()\<close>.\<close>

definition py_strip :: "ustr \<Rightarrow> ustr" where
  "py_strip s = rev (dropWhile py_isspace (rev (dropWhile py_isspace s)))"

text \<open>\<open>s.split()\<close>: the maximal runs of non-space code points, scanned left to right with the
  word read so far.\<close>

fun split_from :: "ustr \<Rightarrow> ustr \<Rightarrow> ustr list" where
  "split_from w [] = (if w = [] then [] else [w])"
| "split_from w (c # cs) =
     (if py_isspace c then (if w = [] then split_from [] cs else w # split_from [] cs)
      else split_from (w @ [c]) cs)"

definition py_split :: "ustr \<Rightarrow> ustr list" where
  "py_split s = split_from [] s"

text \<open>\<open>" ".join(words)\<close>.\<close>

fun join_space :: "ustr list \<Rightarrow> ustr" where
  "join_space [] = []"
| "join_space [w] = w"
| "join_space (w # v # ws) = w @ 32 # join_space (v # ws)"

text \<open>\<open>s.endswith(suffix)\<close>.\<close>

definition endswith :: "ustr \<Rightarrow> ustr \<Rightarrow> bool" where
  "endswith s suffix =
     (length suffix \<le> length s \<and> drop (length s - length suffix) s = suffix)"

text \<open>\<open>s.encode("latin1")\<close>; \<open>None\<close> is \<open>UnicodeEncodeError\<close>.\<close>

definition latin1_encode :: "ustr \<Rightarrow> nat list option" where
  "latin1_encode s = (if \<forall>c \<in> set s. c < 256 then Some s else None)"

text \<open>A UTF-8 continuation byte.\<close>

definition continuation :: "nat \<Rightarrow> bool" where
  "continuation b = (128 \<le> b \<and> b \<le> 191)"

text \<open>\<open>bytes.decode("utf-8")\<close>, strict: no overlong forms, no surrogates, nothing beyond
  U+10FFFF; \<open>None\<close> is \<open>UnicodeDecodeError\<close>.\<close>

fun utf8_decode :: "nat list \<Rightarrow> ustr option" where
  "utf8_decode [] = Some []"
| "utf8_decode (b # bs) =
     (if b < 128 then map_option ((#) b) (utf8_decode bs)
      else if 194 \<le> b \<and> b \<le> 223 then
        (case bs of
           c1 # r \<Rightarrow>
             if continuation c1
             then map_option ((#) ((b - 192) * 64 + (c1 - 128))) (utf8_decode r)
             else None
         | _ \<Rightarrow> None)
      else if 224 \<le> b \<and> b \<le> 239 then
        (case bs of
           c1 # c2 # r \<Rightarrow>
             if (if b = 224 then 160 else 128) \<le> c1 \<and> c1 \<le> (if b = 237 then 159 else 191)
                \<and> continuation c2
             then map_option ((#) ((b - 224) * 4096 + (c1 - 128) * 64 + (c2 - 128)))
                    (utf8_decode r)
             else None
         | _ \<Rightarrow> None)
      else if 240 \<le> b \<and> b \<le> 244 then
        (case bs of
           c1 # c2 # c3 # r \<Rightarrow>
             if (if b = 240 then 144 else 128) \<le> c1 \<and> c1 \<le> (if b = 244 then 143 else 191)
                \<and> continuation c2 \<and> continuation c3
             then map_option
                    ((#) ((b - 240) * 262144 + (c1 - 128) * 4096 + (c2 - 128) * 64 + (c3 - 128)))
                    (utf8_decode r)
             else None
         | _ \<Rightarrow> None)
      else None)"

text \<open>The re-decoding step of \<open>clean_name\<close>: tried when the name contains code point 226
  (\<open>a\<close> with circumflex), and keeping the name when the encoding or the decoding fails.\<close>

definition redecode :: "ustr \<Rightarrow> ustr" where
  "redecode nm =
     (if 226 \<in> set nm then
        (case latin1_encode nm of
           None \<Rightarrow> nm
         | Some bs \<Rightarrow> (case utf8_decode bs of None \<Rightarrow> nm | Some s \<Rightarrow> s))
      else nm)"

text \<open>\<open>clean_name\<close>.  \<open>unicodedata.normalize("NFKC", _)\<close> is a table of the Unicode database
  and is a parameter.  8482 is the trademark glyph.  On a string no step can raise, so
  the outer handler is never entered.\<close>

definition clean_name :: "(ustr \<Rightarrow> ustr) \<Rightarrow> ustr \<Rightarrow> ustr" where
  "clean_name nfkc nm =
     (if nm = [] then []
      else
        let name_fixed = redecode nm;
            name_fixed = filter (\<lambda>c. c \<noteq> 8482) name_fixed;
            name_fixed = nfkc name_fixed;
            name_fixed = join_space (py_split name_fixed)
        in name_fixed)"

text \<open>The suffix \<open>" MINE"\<close>.\<close>

definition MINE :: ustr where
  "MINE = [32, 77, 73, 78, 69]"

text \<open>\<open>base_name\<close>.\<close>

definition base_name :: "ustr \<Rightarrow> ustr" where
  "base_name nm =
     (if endswith nm MINE then py_strip (take (length nm - length MINE) nm) else nm)"

text \<open>NFKC on the strings whose only code point with a decomposition is the trademark glyph
  (replaced by \<open>TM\<close>); the normaliser of the concrete runs below, which stay inside
  such strings.\<close>

definition nfkc_tm :: "ustr \<Rightarrow> ustr" where
  "nfkc_tm s = concat (map (\<lambda>c. if c = 8482 then [84, 77] else [c]) s)"


text \<open>A name holding both a trademark glyph and the three code points its UTF-8 bytes give when read as Latin-1.\<close>

definition mixed_name :: ustr where
  "mixed_name = u ''StatTrak'' @ [8482] @ u '' M249 | Magma'' @ [226, 132, 162]"

section \<open>Grouping and override resolver\<close>

text \<open>The \<open>{name, wear}\<close> dictionary written to the output files.\<close>

record projection =
  p_name :: ustr
  p_wear :: "ustr option"

text \<open>\<open>{"name": item.get("name"), "wear": item.get("wear")}\<close>.\<close>

definition project :: "analytic \<Rightarrow> projection" where
  "project item = \<lparr>p_name = name item, p_wear = wear item\<rparr>"

text \<open>\<open>item.get("name", "").endswith(" MINE")\<close>.\<close>

definition is_mine :: "analytic \<Rightarrow> bool" where
  "is_mine item = endswith (name item) MINE"

text \<open>The test of the candidate loop: \<open>is_good_candidate(item) or passes_profit_margin(item)\<close>.\<close>

definition is_candidate :: "analytic \<Rightarrow> bool" where
  "is_candidate item = (is_good_candidate item \<or> passes_profit_margin item)"

text \<open>The key under which \<open>main\<close> files an item.\<close>

definition group_key :: "(ustr \<Rightarrow> ustr) \<Rightarrow> analytic \<Rightarrow> ustr" where
  "group_key nfkc item = (let name_clean = clean_name nfkc (name item) in base_name name_clean)"

text \<open>\<open>groups[base].append(item)\<close> on a \<open>defaultdict(list)\<close>: a dictionary keeps its keys in
  insertion order, so the groups are an association list and a new key goes to the end.\<close>

fun group_append :: "ustr \<Rightarrow> analytic \<Rightarrow> (ustr \<times> analytic list) list \<Rightarrow> (ustr \<times> analytic list) list" where
  "group_append base item [] = [(base, [item])]"
| "group_append base item ((k, grp) # groups) =
     (if k = base then (k, grp @ [item]) # groups else (k, grp) # group_append base item groups)"

text \<open>The grouping loop of \<open>main\<close>.\<close>

definition group_items :: "(ustr \<Rightarrow> ustr) \<Rightarrow> analytic list \<Rightarrow> (ustr \<times> analytic list) list" where
  "group_items nfkc items = foldl (\<lambda>groups item. group_append (group_key nfkc item) item groups) [] items"

text \<open>The loop over \<open>groups.items()\<close>, with the two output lists as state.  \<open>find\<close> is the
  candidate loop with its \<open>break\<close>; the projection it builds is a non-empty dictionary, so
  \<open>if candidate\<close> tests whether one was found.\<close>

fun resolve_groups ::
  "(ustr \<times> analytic list) list \<Rightarrow> projection list \<times> projection list \<Rightarrow> projection list \<times> projection list" where
  "resolve_groups [] (good_items, bad_items) = (good_items, bad_items)"
| "resolve_groups ((base, grp) # groups) (good_items, bad_items) =
     (let mine_items = filter is_mine grp;
          non_mine_items = filter (\<lambda>item. \<not> is_mine item) grp
      in case find is_candidate non_mine_items of
           Some item \<Rightarrow>
             resolve_groups groups (good_items @ [project item], bad_items @ map project mine_items)
         | None \<Rightarrow> resolve_groups groups (good_items, bad_items @ map project grp))"

text \<open>\<open>main\<close>, from the loaded items to the two lists handed to \<open>save_items\<close>.\<close>

definition main :: "(ustr \<Rightarrow> ustr) \<Rightarrow> analytic list \<Rightarrow> projection list \<times> projection list" where
  "main nfkc items = resolve_groups (group_items nfkc items) ([], [])"

text \<open>The distinct elements of a list in the order of their first occurrence.\<close>

definition first_seen :: "'a list \<Rightarrow> 'a list" where
  "first_seen ks = rev (remdups (rev ks))"

text \<open>What one group adds to \<open>good_items\<close>.\<close>

definition group_good :: "analytic list \<Rightarrow> projection list" where
  "group_good grp =
     (case find is_candidate (filter (\<lambda>item. \<not> is_mine item) grp) of
        Some item \<Rightarrow> [project item] | None \<Rightarrow> [])"

text \<open>What one group adds to \<open>bad_items\<close>.\<close>

definition group_bad :: "analytic list \<Rightarrow> projection list" where
  "group_bad grp =
     (case find is_candidate (filter (\<lambda>item. \<not> is_mine item) grp) of
        Some item \<Rightarrow> map project (filter is_mine grp) | None \<Rightarrow> map project grp)"

text \<open>The first record of group \<open>k\<close>, in input order, that is regular and a candidate.\<close>

definition winner :: "(ustr \<Rightarrow> ustr) \<Rightarrow> analytic list \<Rightarrow> ustr \<Rightarrow> analytic option" where
  "winner nfkc items k =
     find (\<lambda>item. group_key nfkc item = k \<and> \<not> is_mine item \<and> is_candidate item) items"

text \<open>A record is rejected when it is self-owned or its group has no winner.\<close>

definition rejected :: "(ustr \<Rightarrow> ustr) \<Rightarrow> analytic list \<Rightarrow> analytic \<Rightarrow> bool" where
  "rejected nfkc items item =
     (is_mine item \<or> winner nfkc items (group_key nfkc item) = None)"

text \<open>The group key recomputed from an output entry.\<close>

definition projection_key :: "(ustr \<Rightarrow> ustr) \<Rightarrow> projection \<Rightarrow> ustr" where
  "projection_key nfkc p = base_name (clean_name nfkc (p_name p))"

text \<open>The winners of all groups, in group order.\<close>

definition winners :: "(ustr \<Rightarrow> ustr) \<Rightarrow> analytic list \<Rightarrow> analytic list" where
  "winners nfkc items =
     List.map_filter (winner nfkc items) (first_seen (map (group_key nfkc) items))"

text \<open>Sample records: two regular records of one name, the first a candidate, and two
  self-owned variants, the first of which would qualify on its own.\<close>

definition regular_a :: analytic where
  "regular_a = bare (u ''AK-47'') (Some (u ''FN''))
     \<lparr>sales := Some 10, offer_prices_list := Some [2], target_price_list := Some [1]\<rparr>"

definition regular_b :: analytic where
  "regular_b = bare (u ''AK-47'') (Some (u ''FT'')) \<lparr>sales := Some 3\<rparr>"

definition mine_1 :: analytic where
  "mine_1 = bare (u ''AK-47 MINE'') (Some (u ''FN''))
     \<lparr>sales := Some 20, offer_prices_list := Some [2], target_price_list := Some [1]\<rparr>"

definition mine_2 :: analytic where
  "mine_2 = bare (u ''AK-47 MINE'') None"

section \<open>Transformer\<close>

text \<open>
  A field of a raw JSON object that holds text: the key is missing, its value is \<open>null\<close>, or
  its value is a string.  The scraper writes every field of a raw item as text, so other JSON
  values are not modelled.
\<close>

datatype jtext = Absent | Null | Text ustr

text \<open>\<open>d.get(key)\<close>: \<open>None\<close> for a missing key and for \<open>null\<close>.\<close>

definition get :: "jtext \<Rightarrow> ustr option" where
  "get v = (case v of Text s \<Rightarrow> Some s | _ \<Rightarrow> None)"

text \<open>Truth value of a string or \<open>None\<close>: \<open>None\<close> and the empty string are false.\<close>

definition truthy :: "ustr option \<Rightarrow> bool" where
  "truthy v = (case v of Some s \<Rightarrow> s \<noteq> [] | None \<Rightarrow> False)"

text \<open>One entry \<open>sh\<close> of \<open>sales_history\<close>.\<close>

record raw_sale =
  sh_price :: jtext
  sh_operation :: jtext
  sh_date_time :: jtext
  sh_date :: jtext
  sh_time :: jtext

text \<open>One entry of \<open>offer_prices\<close> or \<open>target_prices\<close>.\<close>

record raw_entry =
  entry_price :: jtext
  entry_quantity :: jtext

text \<open>A raw item; a missing list is the empty list, as in \<open>raw_item.get("sales_history", [])\<close>.\<close>

record raw_item =
  raw_name :: jtext
  raw_wear :: jtext
  sales_history :: "raw_sale list"
  target_prices :: "raw_entry list"
  offer_prices :: "raw_entry list"

text \<open>
  The library functions the transformer calls: \<open>float\<close> on a string (\<open>None\<close> is
  \<open>ValueError\<close>), \<open>datetime.strptime\<close> on a string and a format (\<open>None\<close> is
  \<open>ValueError\<close>; a date is its number of microseconds since the epoch), and
  \<open>unicodedata.normalize("NFKC", _)\<close>.  Floats are read as reals.
\<close>

record runtime =
  float_of :: "ustr \<Rightarrow> real option"
  strptime :: "ustr \<Rightarrow> ustr \<Rightarrow> int option"
  normalize_NFKC :: "ustr \<Rightarrow> ustr"

text \<open>
  The exceptions of the modelled code: \<open>ValueError\<close> and \<open>ZeroDivisionError\<close> are raised
  inside the \<open>try\<close> block of \<open>transform_item\<close>, \<open>TypeError\<close> by a comparison or a \<open>len\<close> on
  a value of the wrong type.
\<close>

datatype exn = ValueError | ZeroDivisionError | TypeError

text \<open>\<open>float(s.replace("$", "").strip())\<close>.\<close>

definition parse_price :: "runtime \<Rightarrow> ustr \<Rightarrow> real option" where
  "parse_price rt s = float_of rt (py_strip (filter (\<lambda>c. c \<noteq> 36) s))"

definition date_formats :: "ustr list" where
  "date_formats =
     [u ''%Y-%m-%d %H:%M:%S'', u ''%Y-%m-%d'', u ''%b %d, %Y, %I:%M %p'',
      u ''%b %d, %Y at %I:%M %p'']"

text \<open>The loop of \<open>parse_date\<close>: the first format that parses wins.\<close>

fun try_formats :: "runtime \<Rightarrow> ustr \<Rightarrow> ustr list \<Rightarrow> int option" where
  "try_formats rt date_str [] = None"
| "try_formats rt date_str (fmt # fmts) =
     (case strptime rt date_str fmt of
        Some d \<Rightarrow> Some d
      | None \<Rightarrow> try_formats rt date_str fmts)"

text \<open>
  \<open>parse_date\<close>.  On \<open>None\<close> every \<open>strptime\<close> call raises \<open>TypeError\<close>, which the loop
  catches, so the result is \<open>None\<close>.
\<close>

definition parse_date :: "runtime \<Rightarrow> ustr option \<Rightarrow> int option" where
  "parse_date rt date_str =
     (case date_str of None \<Rightarrow> None | Some s \<Rightarrow> try_formats rt s date_formats)"

text \<open>\<open>timedelta(days=30)\<close> in microseconds.\<close>

definition thirty_days :: int where
  "thirty_days = 30 * 86400 * 1000000"

text \<open>
  The body of the loop over \<open>sales_history\<close>, with the state
  \<open>(monthly_sales, recent_sales_data)\<close>.  A price that does not parse is caught by the inner
  handler and the entry is skipped (\<open>continue\<close>).
\<close>

definition sale_step ::
  "runtime \<Rightarrow> int \<Rightarrow> int \<times> sale_info list \<Rightarrow> raw_sale \<Rightarrow> int \<times> sale_info list" where
  "sale_step rt thirty_days_ago acc sh =
     (case acc of (monthly_sales, recent_sales_data) \<Rightarrow>
      (case sh_price sh of
         Text p \<Rightarrow>
           if p \<noteq> [] then
             (case parse_price rt p of
                None \<Rightarrow> (monthly_sales, recent_sales_data)
              | Some price \<Rightarrow>
                  let date_time =
                        (if truthy (get (sh_date_time sh)) then get (sh_date_time sh)
                         else
                           (case (sh_date sh, sh_time sh) of
                              (Text date_value, Text time_value) \<Rightarrow>
                                if date_value \<noteq> [] \<and> time_value \<noteq> []
                                then Some (date_value @ [32] @ time_value)
                                else get (sh_date sh)
                            | _ \<Rightarrow> get (sh_date sh)))
                  in case parse_date rt date_time of
                       None \<Rightarrow> (monthly_sales, recent_sales_data)
                     | Some sale_date \<Rightarrow>
                         if sale_date \<ge> thirty_days_ago then
                           (monthly_sales + 1,
                            recent_sales_data @
                              [\<lparr>si_price = price, si_date_time = date_time,
                                si_operation = get (sh_operation sh)\<rparr>])
                         else (monthly_sales, recent_sales_data))
           else (monthly_sales, recent_sales_data)
       | _ \<Rightarrow> (monthly_sales, recent_sales_data)))"

text \<open>
  The list comprehension over \<open>offer_prices\<close> and over \<open>target_prices\<close>: entries whose price
  is missing or empty are left out; a price that does not parse raises \<open>ValueError\<close> out of
  the comprehension.
\<close>

fun parse_entries :: "runtime \<Rightarrow> raw_entry list \<Rightarrow> exn + real list" where
  "parse_entries rt [] = Inr []"
| "parse_entries rt (op # ops) =
     (case entry_price op of
        Text p \<Rightarrow>
          if p \<noteq> [] then
            (case parse_price rt p of
               None \<Rightarrow> Inl ValueError
             | Some v \<Rightarrow>
                 (case parse_entries rt ops of Inl e \<Rightarrow> Inl e | Inr vs \<Rightarrow> Inr (v # vs)))
          else parse_entries rt ops
      | _ \<Rightarrow> parse_entries rt ops)"

text \<open>\<open>a / b\<close> on floats.\<close>

definition truediv :: "real \<Rightarrow> real \<Rightarrow> exn + real" where
  "truediv a b = (if b = 0 then Inl ZeroDivisionError else Inr (a / b))"

text \<open>\<open>statistics.variance\<close> (the sample variance) on a list of at least two values.\<close>

definition variance :: "real list \<Rightarrow> real" where
  "variance xs = (let m = mean xs in sum_list (map (\<lambda>x. (x - m)\<^sup>2) xs) / real (length xs - 1))"

text \<open>
  \<open>transform_item\<close> up to its \<open>return\<close>: the dictionary \<open>transformed\<close> as it stands when the
  \<open>try\<close> block is left, and the exception that left it, if any.  \<open>now\<close> is the value of
  \<open>datetime.now()\<close>.
\<close>

definition transform_body :: "runtime \<Rightarrow> int \<Rightarrow> raw_item \<Rightarrow> analytic \<times> exn option" where
  "transform_body rt now raw_item =
     (let raw_nm = (case raw_name raw_item of Absent \<Rightarrow> [] | Null \<Rightarrow> [] | Text s \<Rightarrow> s);
          transformed = bare (clean_name (normalize_NFKC rt) raw_nm)
                          (case raw_wear raw_item of
                             Absent \<Rightarrow> Some [] | Null \<Rightarrow> None | Text s \<Rightarrow> Some s);
          thirty_days_ago = now - thirty_days;
          (monthly_sales, recent_sales_data) =
             foldl (sale_step rt thirty_days_ago) (0, []) (sales_history raw_item);
          transformed = transformed\<lparr>sales := Some monthly_sales,
                                     recent_sales_prices := Some recent_sales_data\<rparr>;
          recent_prices = map si_price recent_sales_data
      in case parse_entries rt (offer_prices raw_item) of
           Inl e \<Rightarrow> (transformed, Some e)
         | Inr full_offer_list \<Rightarrow>
      let sorted_offers = sort full_offer_list;
          lowest_offers = take 3 sorted_offers;
          transformed = transformed\<lparr>offer_prices_list := Some lowest_offers,
                                     offer_prices_quantity := Some (length lowest_offers)\<rparr>
      in case parse_entries rt (target_prices raw_item) of
           Inl e \<Rightarrow> (transformed, Some e)
         | Inr full_target_list \<Rightarrow>
      let sorted_targets = rev (sort full_target_list);
          highest_targets = take 3 sorted_targets;
          transformed = transformed\<lparr>target_price_list := Some highest_targets,
                                     target_price_list_quantity := Some (length highest_targets)\<rparr>;
          offer1 = (if length lowest_offers \<ge> 1 then lowest_offers ! 0 else 0.01);
          target1 = (if length highest_targets \<ge> 1 then highest_targets ! 0 else 0.01)
      in case truediv offer1 target1 of
           Inl e \<Rightarrow> (transformed, Some e)
         | Inr margin_pair1 \<Rightarrow>
      let transformed = transformed\<lparr>profit_margin_pair1 := Some margin_pair1\<rparr>;
          offer2 = (if length lowest_offers \<ge> 2 then lowest_offers ! 1 else 0.01);
          target2 = (if length highest_targets \<ge> 2 then highest_targets ! 1 else 0.01)
      in case truediv offer2 target2 of
           Inl e \<Rightarrow> (transformed, Some e)
         | Inr margin_pair2 \<Rightarrow>
      let transformed = transformed\<lparr>profit_margin_pair2 := Some margin_pair2\<rparr>
      in if recent_prices \<noteq> [] then
           (transformed\<lparr>average_recent_sale_price := Some (mean recent_prices),
                         price_variance :=
                           Some (if length recent_prices > 1 then variance recent_prices else 0.0)\<rparr>,
            None)
         else
           (transformed\<lparr>average_recent_sale_price := Some 0.0, price_variance := Some 0.0\<rparr>,
            None))"

text \<open>
  \<open>transform_item\<close>: the handler \<open>except Exception\<close> logs the exception and the function
  returns \<open>transformed\<close> as it stands.
\<close>

definition transform_item :: "runtime \<Rightarrow> int \<Rightarrow> raw_item \<Rightarrow> analytic" where
  "transform_item rt now raw_item = fst (transform_body rt now raw_item)"

text \<open>
  A runtime given by tables: \<open>float\<close> on four decimal strings, \<open>strptime\<close> on one date
  (2025-03-01 00:00:00 UTC in microseconds), every other string a \<open>ValueError\<close>.
\<close>

definition table_runtime :: runtime where
  "table_runtime =
     \<lparr>float_of = map_of [(u ''1.00'', 1), (u ''2.00'', 2), (u ''1.50'', 1.5), (u ''0.00'', 0)],
      strptime = (\<lambda>s fmt. map_of [((u ''2025-03-01'', u ''%Y-%m-%d''), 1740787200000000)] (s, fmt)),
      normalize_NFKC = nfkc_tm\<rparr>"

text \<open>2025-03-15 00:00:00 UTC.\<close>

definition mid_march :: int where
  "mid_march = 1741996800000000"

text \<open>The entry \<open>{"price": s, "quantity": "1"}\<close>.\<close>

definition priced :: "string \<Rightarrow> raw_entry" where
  "priced s = \<lparr>entry_price = Text (u s), entry_quantity = Text (u ''1'')\<rparr>"

text \<open>The sale \<open>{"price": p, "operation": "Target", "date_time": d}\<close>.\<close>

definition sold :: "string \<Rightarrow> string \<Rightarrow> raw_sale" where
  "sold p d = \<lparr>sh_price = Text (u p), sh_operation = Text (u ''Target''),
               sh_date_time = Text (u d), sh_date = Absent, sh_time = Absent\<rparr>"

text \<open>A raw item with one malformed sale price and one malformed offer price.\<close>

definition raw_malformed_offer :: raw_item where
  "raw_malformed_offer =
     \<lparr>raw_name = Text (u ''AK-47''), raw_wear = Text (u ''FN''),
      sales_history = [sold ''n/a'' ''2025-03-01'', sold ''$1.50'' ''2025-03-01''],
      target_prices = [priced ''$1.00''],
      offer_prices = [priced ''$2.00'', priced ''abc'']\<rparr>"

text \<open>A raw item whose only target price is zero.\<close>

definition raw_zero_target :: raw_item where
  "raw_zero_target =
     \<lparr>raw_name = Text (u ''AK-47''), raw_wear = Text (u ''FN''),
      sales_history = [],
      target_prices = [priced ''$0.00''],
      offer_prices = [priced ''$1.00'']\<rparr>"

text \<open>A raw item with unsorted offers and targets, one offer price malformed.\<close>

definition raw_mixed_offers :: raw_item where
  "raw_mixed_offers =
     \<lparr>raw_name = Text (u ''AK-47''), raw_wear = Text (u ''FN''),
      sales_history = [],
      target_prices = [priced ''$1.00'', priced ''$2.00''],
      offer_prices = [priced ''$2.00'', priced ''abc'', priced ''$1.00'']\<rparr>"

section \<open>Evaluator on arbitrary dictionaries\<close>

text \<open>
  The values \<open>json.load\<close> can put under a key: \<open>None\<close>, a boolean, an integer, a float, a
  string, a list and a dictionary (its items in order).
\<close>

datatype pyval =
    PNone
  | PBool bool
  | PInt int
  | PFloat real
  | PStr ustr
  | PList "pyval list"
  | PDict "(string \<times> pyval) list"

text \<open>A record dictionary: the value under each key, \<open>None\<close> for a missing key.\<close>

type_synonym pydict = "string \<Rightarrow> pyval option"

text \<open>\<open>item.get(key, default)\<close>; \<open>item.get(key)\<close> has the default \<open>None\<close>.\<close>

definition dict_get :: "pydict \<Rightarrow> string \<Rightarrow> pyval \<Rightarrow> pyval" where
  "dict_get d k dflt = (case d k of None \<Rightarrow> dflt | Some v \<Rightarrow> v)"

text \<open>The number a value stands for in a comparison; \<open>True\<close> and \<open>False\<close> are 1 and 0.\<close>

fun num_of :: "pyval \<Rightarrow> real option" where
  "num_of (PBool b) = Some (if b then 1 else 0)"
| "num_of (PInt n) = Some (of_int n)"
| "num_of (PFloat x) = Some x"
| "num_of PNone = None"
| "num_of (PStr s) = None"
| "num_of (PList xs) = None"
| "num_of (PDict kvs) = None"

text \<open>
  \<open>v < c\<close> and \<open>v >= c\<close> for a numeric constant \<open>c\<close>: a value that is not a number raises
  \<open>TypeError\<close>.
\<close>

definition py_lt :: "pyval \<Rightarrow> real \<Rightarrow> exn + bool" where
  "py_lt v c = (case num_of v of None \<Rightarrow> Inl TypeError | Some x \<Rightarrow> Inr (x < c))"

definition py_ge :: "pyval \<Rightarrow> real \<Rightarrow> exn + bool" where
  "py_ge v c = (case num_of v of None \<Rightarrow> Inl TypeError | Some x \<Rightarrow> Inr (x \<ge> c))"

text \<open>The truth value of a value, as \<open>not v\<close> reads it.\<close>

fun py_bool :: "pyval \<Rightarrow> bool" where
  "py_bool PNone = False"
| "py_bool (PBool b) = b"
| "py_bool (PInt n) = (n \<noteq> 0)"
| "py_bool (PFloat x) = (x \<noteq> 0)"
| "py_bool (PStr s) = (s \<noteq> [])"
| "py_bool (PList xs) = (xs \<noteq> [])"
| "py_bool (PDict kvs) = (kvs \<noteq> [])"

text \<open>\<open>len(v)\<close>: \<open>TypeError\<close> on \<open>None\<close>, a boolean and a number.\<close>

fun py_len :: "pyval \<Rightarrow> exn + nat" where
  "py_len (PStr s) = Inr (length s)"
| "py_len (PList xs) = Inr (length xs)"
| "py_len (PDict kvs) = Inr (length (remdups (map fst kvs)))"
| "py_len PNone = Inl TypeError"
| "py_len (PBool b) = Inl TypeError"
| "py_len (PInt n) = Inl TypeError"
| "py_len (PFloat x) = Inl TypeError"

text \<open>
  \<open>is_good_candidate\<close> on an arbitrary dictionary, with the exception it raises.  The
  arguments of the second \<open>logging.debug\<close> call are evaluated before the call, so the two
  \<open>len\<close> are part of the function; the logging calls themselves do not raise.
\<close>

definition is_good_candidate_dyn :: "pydict \<Rightarrow> exn + bool" where
  "is_good_candidate_dyn item =
     (let sales = dict_get item ''sales'' (PInt 0) in
      case py_lt sales (of_int MIN_SALES_EXCEPTION) of
        Inl e \<Rightarrow> Inl e
      | Inr below \<Rightarrow>
          if below then Inr False
          else if \<not> py_bool (dict_get item ''offer_prices_list'' PNone)
                  \<or> \<not> py_bool (dict_get item ''target_price_list'' PNone)
          then
            (case py_len (dict_get item ''offer_prices_list'' (PList [])) of
               Inl e \<Rightarrow> Inl e
             | Inr offer_qty \<Rightarrow>
                 (case py_len (dict_get item ''target_price_list'' (PList [])) of
                    Inl e \<Rightarrow> Inl e
                  | Inr target_qty \<Rightarrow> Inr False))
          else Inr True)"

text \<open>\<open>pm is not None and pm >= factor\<close> on an arbitrary value.\<close>

definition margin_reaches_dyn :: "pyval \<Rightarrow> real \<Rightarrow> exn + bool" where
  "margin_reaches_dyn pm factor = (if pm = PNone then Inr False else py_ge pm factor)"

text \<open>
  \<open>passes_profit_margin\<close> on an arbitrary dictionary, with the exception it raises; the
  second margin is only compared when the first does not reach the factor.
\<close>

definition passes_profit_margin_dyn :: "pydict \<Rightarrow> exn + bool" where
  "passes_profit_margin_dyn item =
     (let sales = dict_get item ''sales'' (PInt 0) in
      case py_lt sales (of_int MIN_SALES_EXCEPTION) of
        Inl e \<Rightarrow> Inl e
      | Inr below \<Rightarrow>
          if below then Inr False
          else
            (case py_ge sales (of_int MIN_SALES_NORMAL) of
               Inl e \<Rightarrow> Inl e
             | Inr normal \<Rightarrow>
                 let factor = (if normal then PROFIT_MARGIN_NORMAL else PROFIT_MARGIN_EXCEPTION);
                     pm1 = dict_get item ''profit_margin_pair1'' PNone;
                     pm2 = dict_get item ''profit_margin_pair2'' PNone
                 in case margin_reaches_dyn pm1 factor of
                      Inl e \<Rightarrow> Inl e
                    | Inr reached1 \<Rightarrow>
                        if reached1 then Inr True
                        else
                          (case margin_reaches_dyn pm2 factor of
                             Inl e \<Rightarrow> Inl e
                           | Inr reached2 \<Rightarrow> if reached2 then Inr True else Inr False)))"

text \<open>A boolean, an integer or a float.\<close>

fun is_number :: "pyval \<Rightarrow> bool" where
  "is_number (PInt n) = True"
| "is_number (PFloat x) = True"
| "is_number (PBool b) = True"
| "is_number PNone = False"
| "is_number (PStr s) = False"
| "is_number (PList xs) = False"
| "is_number (PDict kvs) = False"

fun is_list :: "pyval \<Rightarrow> bool" where
  "is_list (PList xs) = True"
| "is_list PNone = False"
| "is_list (PBool b) = False"
| "is_list (PInt n) = False"
| "is_list (PFloat x) = False"
| "is_list (PStr s) = False"
| "is_list (PDict kvs) = False"

text \<open>The key is missing, or its value satisfies \<open>P\<close>.\<close>

definition absent_or :: "(pyval \<Rightarrow> bool) \<Rightarrow> pyval option \<Rightarrow> bool" where
  "absent_or P v = (case v of None \<Rightarrow> True | Some x \<Rightarrow> P x)"

text \<open>
  The dictionaries whose keys, where present, hold values of the kind \<open>transform_item\<close>
  writes under them: a number for the sales count and for the two margins, a list for the
  two price lists.  Any key may be missing.
\<close>

definition typed_record :: "pydict \<Rightarrow> bool" where
  "typed_record item =
     (absent_or is_number (item ''sales'')
      \<and> absent_or is_list (item ''offer_prices_list'')
      \<and> absent_or is_list (item ''target_price_list'')
      \<and> absent_or is_number (item ''profit_margin_pair1'')
      \<and> absent_or is_number (item ''profit_margin_pair2''))"

text \<open>The dictionary \<open>sale_info\<close> as a value.\<close>

definition sale_dict :: "sale_info \<Rightarrow> pyval" where
  "sale_dict s =
     PDict [(''price'', PFloat (si_price s)),
            (''date_time'', (case si_date_time s of None \<Rightarrow> PNone | Some d \<Rightarrow> PStr d)),
            (''operation'', (case si_operation s of None \<Rightarrow> PNone | Some d \<Rightarrow> PStr d))]"

text \<open>
  The dictionary a record of type \<open>analytic\<close> stands for: \<open>name\<close> and \<open>wear\<close> are always
  present, every other key is present when its field is set.
\<close>

definition as_dict :: "analytic \<Rightarrow> pydict" where
  "as_dict item k =
     (if k = ''name'' then Some (PStr (name item))
      else if k = ''wear'' then Some (case wear item of None \<Rightarrow> PNone | Some w \<Rightarrow> PStr w)
      else if k = ''sales'' then map_option PInt (sales item)
      else if k = ''recent_sales_prices''
        then map_option (\<lambda>xs. PList (map sale_dict xs)) (recent_sales_prices item)
      else if k = ''offer_prices_list''
        then map_option (\<lambda>xs. PList (map PFloat xs)) (offer_prices_list item)
      else if k = ''offer_prices_quantity''
        then map_option (\<lambda>n. PInt (int n)) (offer_prices_quantity item)
      else if k = ''target_price_list''
        then map_option (\<lambda>xs. PList (map PFloat xs)) (target_price_list item)
      else if k = ''target_price_list_quantity''
        then map_option (\<lambda>n. PInt (int n)) (target_price_list_quantity item)
      else if k = ''profit_margin_pair1'' then map_option PFloat (profit_margin_pair1 item)
      else if k = ''profit_margin_pair2'' then map_option PFloat (profit_margin_pair2 item)
      else if k = ''average_recent_sale_price''
        then map_option PFloat (average_recent_sale_price item)
      else if k = ''price_variance'' then map_option PFloat (price_variance item)
      else None)"

text \<open>The dictionary \<open>{"sales": None}\<close>.\<close>

definition none_sales :: pydict where
  "none_sales = Map.empty(''sales'' \<mapsto> PNone)"

text \<open>The dictionary \<open>{"name": "a"}\<close>.\<close>

definition no_sales_record :: pydict where
  "no_sales_record = Map.empty(''name'' \<mapsto> PStr (u ''a''))"

text \<open>
  The dictionary \<open>{"sales": 30, "offer_prices_list": [2.0], "target_price_list": [1.0]}\<close>,
  a record with enough sales and both lists but neither margin.
\<close>

definition no_margin_record :: pydict where
  "no_margin_record =
     Map.empty(''sales'' \<mapsto> PInt 30, ''offer_prices_list'' \<mapsto> PList [PFloat 2],
               ''target_price_list'' \<mapsto> PList [PFloat 1])"

section \<open>Properties of the evaluator\<close>

lemma fold_min_Min: "fold min ps (p::real) = Min (set (p # ps))"
  by (rule Min.set_eq_fold [symmetric])

lemma fold_max_Max: "fold max ps (p::real) = Max (set (p # ps))"
  by (rule Max.set_eq_fold [symmetric])

lemma is_price_consistent_nonempty:
  assumes "prices \<noteq> []"
  shows "is_price_consistent prices =
     (Min (set prices) \<noteq> 0 \<and>
      Max (set prices) / Min (set prices)
        \<le> (if mean prices < 5 then 4.2 else 1.2))"
proof -
  from assms obtain p ps where ps: "prices = p # ps"
    by (cases prices) auto
  show ?thesis
    unfolding ps is_price_consistent_def fold_min_Min fold_max_Max
      PRICE_CONSISTENCY_THRESHOLD_LOW_PRICE_def PRICE_CONSISTENCY_THRESHOLD_STRICT_def
    by (simp add: Let_def)
qed

text \<open>
  Claim C5.  \<open>is_price_consistent\<close> is false on the empty sequence and on every sequence
  whose minimum is zero; on any other sequence it is true exactly when max/min is at
  most the threshold, 4.2 when the mean is below 5.0 and 1.20 otherwise.  In particular
  it is false on \<open>[]\<close>, true on \<open>[5,5,5]\<close> and false on \<open>[1,10]\<close>.
\<close>

theorem is_price_consistent_spec:
  "\<not> is_price_consistent []
   \<and> (prices \<noteq> [] \<and> Min (set prices) = 0 \<longrightarrow> \<not> is_price_consistent prices)
   \<and> (prices \<noteq> [] \<and> Min (set prices) \<noteq> 0 \<longrightarrow>
        is_price_consistent prices =
          (Max (set prices) / Min (set prices)
             \<le> (if sum_list prices / real (length prices) < 5.0 then 4.2 else 1.20)))
   \<and> is_price_consistent [5, 5, 5]
   \<and> \<not> is_price_consistent [1, 10]"
proof -
  have e: "\<not> is_price_consistent []"
    by (simp add: is_price_consistent_def)
  have z: "prices \<noteq> [] \<and> Min (set prices) = 0 \<longrightarrow> \<not> is_price_consistent prices"
    by (simp add: is_price_consistent_nonempty)
  have r: "prices \<noteq> [] \<and> Min (set prices) \<noteq> 0 \<longrightarrow>
        is_price_consistent prices =
          (Max (set prices) / Min (set prices)
             \<le> (if sum_list prices / real (length prices) < 5.0 then 4.2 else 1.20))"
    by (simp add: is_price_consistent_nonempty mean_def)
  have a: "is_price_consistent [5, 5, 5]"
    by (simp add: is_price_consistent_nonempty mean_def)
  have b: "\<not> is_price_consistent [1, 10]"
    by (simp add: is_price_consistent_nonempty mean_def)
  from e z r a b show ?thesis by blast
qed

theorem is_price_consistent_spec_witness:
  "\<not> is_price_consistent [0, 3] \<and> is_price_consistent [2, 4] \<and> \<not> is_price_consistent [6, 9]"
proof -
  have "\<not> is_price_consistent [0, 3]"
    using is_price_consistent_spec [of "[0, 3]"] by simp
  moreover have "is_price_consistent [2, 4]"
    using is_price_consistent_spec [of "[2, 4]"] by simp
  moreover have "\<not> is_price_consistent [6, 9]"
    using is_price_consistent_spec [of "[6, 9]"] by simp
  ultimately show ?thesis by blast
qed

text \<open>
  Claim C6.  \<open>passes_profit_margin\<close> is false on every record with fewer than 7 sales;
  from 15 sales on the required factor is 1.15, between 7 and 14 sales it is 1.30, and the
  record passes exactly when one of its two margins reaches the factor.  A record with
  10 sales and margin 1.25 (second margin no higher) is rejected.
\<close>

theorem passes_profit_margin_spec:
  "(get_sales item < 7 \<longrightarrow> \<not> passes_profit_margin item)
   \<and> (15 \<le> get_sales item \<longrightarrow>
        passes_profit_margin item =
          (margin_reaches (profit_margin_pair1 item) 1.15
           \<or> margin_reaches (profit_margin_pair2 item) 1.15))
   \<and> (7 \<le> get_sales item \<and> get_sales item < 15 \<longrightarrow>
        passes_profit_margin item =
          (margin_reaches (profit_margin_pair1 item) 1.30
           \<or> margin_reaches (profit_margin_pair2 item) 1.30))
   \<and> (sales item = Some 10 \<and> profit_margin_pair1 item = Some 1.25
        \<and> (\<forall>m. profit_margin_pair2 item = Some m \<longrightarrow> m \<le> 1.25)
        \<longrightarrow> \<not> passes_profit_margin item)"
  by (auto simp: passes_profit_margin_def get_sales_def margin_reaches_def Let_def
      MIN_SALES_EXCEPTION_def MIN_SALES_NORMAL_def PROFIT_MARGIN_NORMAL_def
      PROFIT_MARGIN_EXCEPTION_def split: option.splits)

theorem passes_profit_margin_spec_witness:
  "\<not> passes_profit_margin (bare (u ''a'') None \<lparr>sales := Some 5, profit_margin_pair1 := Some 9\<rparr>)
   \<and> passes_profit_margin (bare (u ''a'') None \<lparr>sales := Some 20, profit_margin_pair1 := Some 1.16\<rparr>)
   \<and> \<not> passes_profit_margin (bare (u ''a'') None \<lparr>sales := Some 10, profit_margin_pair1 := Some 1.25\<rparr>)
   \<and> passes_profit_margin (bare (u ''a'') None \<lparr>sales := Some 10, profit_margin_pair2 := Some 1.30\<rparr>)"
proof -
  have "\<not> passes_profit_margin (bare (u ''a'') None \<lparr>sales := Some 5, profit_margin_pair1 := Some 9\<rparr>)"
    using passes_profit_margin_spec
      [of "bare (u ''a'') None \<lparr>sales := Some 5, profit_margin_pair1 := Some 9\<rparr>"]
    by (simp add: get_sales_def bare_def)
  moreover
  have "passes_profit_margin (bare (u ''a'') None \<lparr>sales := Some 20, profit_margin_pair1 := Some 1.16\<rparr>)"
    using passes_profit_margin_spec
      [of "bare (u ''a'') None \<lparr>sales := Some 20, profit_margin_pair1 := Some 1.16\<rparr>"]
    by (simp add: get_sales_def bare_def margin_reaches_def)
  moreover
  have "\<not> passes_profit_margin (bare (u ''a'') None \<lparr>sales := Some 10, profit_margin_pair1 := Some 1.25\<rparr>)"
    using passes_profit_margin_spec
      [of "bare (u ''a'') None \<lparr>sales := Some 10, profit_margin_pair1 := Some 1.25\<rparr>"]
    by (simp add: get_sales_def bare_def margin_reaches_def)
  moreover
  have "passes_profit_margin (bare (u ''a'') None \<lparr>sales := Some 10, profit_margin_pair2 := Some 1.30\<rparr>)"
    using passes_profit_margin_spec
      [of "bare (u ''a'') None \<lparr>sales := Some 10, profit_margin_pair2 := Some 1.30\<rparr>"]
    by (simp add: get_sales_def bare_def margin_reaches_def)
  ultimately show ?thesis by blast
qed

text \<open>
  Claim C7.  \<open>is_good_candidate\<close> is false on every record with fewer than 7 sales whatever
  its other fields, false when the offer list or the target list is empty (or missing),
  and true otherwise; on a record with 5 sales both \<open>is_good_candidate\<close> and
  \<open>passes_profit_margin\<close> are false.
\<close>

theorem is_good_candidate_spec:
  "(get_sales item < 7 \<longrightarrow> \<not> is_good_candidate item)
   \<and> (\<not> truthy_list (offer_prices_list item) \<or> \<not> truthy_list (target_price_list item)
        \<longrightarrow> \<not> is_good_candidate item)
   \<and> (7 \<le> get_sales item \<and> truthy_list (offer_prices_list item)
        \<and> truthy_list (target_price_list item) \<longrightarrow> is_good_candidate item)
   \<and> (sales item = Some 5 \<longrightarrow> \<not> is_good_candidate item \<and> \<not> passes_profit_margin item)"
  by (auto simp: is_good_candidate_def passes_profit_margin_def get_sales_def Let_def
      MIN_SALES_EXCEPTION_def)

theorem is_good_candidate_spec_witness:
  "\<not> is_good_candidate (bare (u ''a'') None
        \<lparr>sales := Some 5, offer_prices_list := Some [1], target_price_list := Some [1]\<rparr>)
   \<and> \<not> passes_profit_margin (bare (u ''a'') None
        \<lparr>sales := Some 5, offer_prices_list := Some [1], target_price_list := Some [1]\<rparr>)
   \<and> \<not> is_good_candidate (bare (u ''a'') None
        \<lparr>sales := Some 9, offer_prices_list := Some [], target_price_list := Some [1]\<rparr>)
   \<and> is_good_candidate (bare (u ''a'') None
        \<lparr>sales := Some 7, offer_prices_list := Some [2], target_price_list := Some [1]\<rparr>)"
proof -
  let ?a = "bare (u ''a'') None
        \<lparr>sales := Some 5, offer_prices_list := Some [1], target_price_list := Some [1]\<rparr>"
  let ?b = "bare (u ''a'') None
        \<lparr>sales := Some 9, offer_prices_list := Some [], target_price_list := Some [1]\<rparr>"
  let ?c = "bare (u ''a'') None
        \<lparr>sales := Some 7, offer_prices_list := Some [2], target_price_list := Some [1]\<rparr>"
  have "\<not> is_good_candidate ?a \<and> \<not> passes_profit_margin ?a"
    using is_good_candidate_spec [of ?a] by (simp add: bare_def)
  moreover have "\<not> is_good_candidate ?b"
    using is_good_candidate_spec [of ?b] by (simp add: bare_def truthy_list_def)
  moreover have "is_good_candidate ?c"
    using is_good_candidate_spec [of ?c] by (simp add: bare_def truthy_list_def get_sales_def)
  ultimately show ?thesis by blast
qed

section \<open>Properties of the text normalizer\<close>

lemma split_from_words:
  "\<forall>c \<in> set v. \<not> py_isspace c \<Longrightarrow> w \<in> set (split_from v s) \<Longrightarrow>
     w \<noteq> [] \<and> (\<forall>c \<in> set w. \<not> py_isspace c)"
proof (induction s arbitrary: v)
  case Nil
  then show ?case by (simp split: if_splits)
next
  case (Cons c cs)
  show ?case
  proof (cases "py_isspace c")
    case True
    with Cons.prems(2) have "(w = v \<and> v \<noteq> []) \<or> w \<in> set (split_from [] cs)"
      by (simp split: if_splits)
    then show ?thesis
    proof
      assume "w = v \<and> v \<noteq> []"
      then show ?thesis using Cons.prems(1) by simp
    next
      assume "w \<in> set (split_from [] cs)"
      then show ?thesis using Cons.IH [of "[]"] by simp
    qed
  next
    case False
    with Cons.prems(2) have "w \<in> set (split_from (v @ [c]) cs)" by simp
    moreover have "\<forall>d \<in> set (v @ [c]). \<not> py_isspace d"
      using False Cons.prems(1) by simp
    ultimately show ?thesis using Cons.IH [of "v @ [c]"] by blast
  qed
qed

lemma split_from_chars:
  "w \<in> set (split_from v s) \<Longrightarrow> set w \<subseteq> set v \<union> set s"
proof (induction s arbitrary: v)
  case Nil
  then show ?case by (simp split: if_splits)
next
  case (Cons c cs)
  show ?case
  proof (cases "py_isspace c")
    case True
    with Cons.prems have "w = v \<or> w \<in> set (split_from [] cs)"
      by (simp split: if_splits)
    then show ?thesis
    proof
      assume "w = v"
      then show ?thesis by auto
    next
      assume "w \<in> set (split_from [] cs)"
      then have "set w \<subseteq> set [] \<union> set cs" by (rule Cons.IH)
      then show ?thesis by auto
    qed
  next
    case False
    with Cons.prems have "w \<in> set (split_from (v @ [c]) cs)" by simp
    then have "set w \<subseteq> set (v @ [c]) \<union> set cs" by (rule Cons.IH)
    then show ?thesis by auto
  qed
qed

lemma split_from_append:
  "\<forall>c \<in> set x. \<not> py_isspace c \<Longrightarrow> split_from v (x @ rest) = split_from (v @ x) rest"
  by (induction x arbitrary: v) auto

lemma split_from_join:
  "\<forall>w \<in> set ws. w \<noteq> [] \<and> (\<forall>c \<in> set w. \<not> py_isspace c) \<Longrightarrow>
     split_from [] (join_space ws) = ws"
proof (induction ws rule: join_space.induct)
  case 1
  then show ?case by simp
next
  case (2 w)
  then have "split_from [] (w @ []) = split_from ([] @ w) []"
    by (intro split_from_append) simp
  with 2 show ?case by simp
next
  case (3 w v ws)
  have sp: "py_isspace 32" by (simp add: py_isspace_def)
  have w: "w \<noteq> []" "\<forall>c \<in> set w. \<not> py_isspace c"
    using "3.prems" by simp_all
  have rest: "\<forall>w \<in> set (v # ws). w \<noteq> [] \<and> (\<forall>c \<in> set w. \<not> py_isspace c)"
    using "3.prems" by simp
  have ih: "split_from [] (join_space (v # ws)) = v # ws"
    using rest by (rule "3.IH")
  have "split_from [] (w @ 32 # join_space (v # ws)) = split_from ([] @ w) (32 # join_space (v # ws))"
    using w(2) by (rule split_from_append)
  also have "\<dots> = w # split_from [] (join_space (v # ws))"
    using w(1) sp by simp
  finally show ?case by (simp only: join_space.simps ih)
qed

lemma join_space_chars: "set (join_space ws) \<subseteq> insert 32 (\<Union> (set ` set ws))"
  by (induction ws rule: join_space.induct) auto

lemma collapse_chars: "set (join_space (py_split s)) \<subseteq> insert 32 (set s)"
proof -
  have "\<Union> (set ` set (py_split s)) \<subseteq> set s"
    using split_from_chars [of _ "[]" s] by (auto simp: py_split_def)
  with join_space_chars [of "py_split s"] show ?thesis by blast
qed

lemma collapse_idem:
  "join_space (py_split (join_space (py_split s))) = join_space (py_split s)"
proof -
  have "\<forall>w \<in> set (py_split s). w \<noteq> [] \<and> (\<forall>c \<in> set w. \<not> py_isspace c)"
    using split_from_words [of "[]" _ s] by (auto simp: py_split_def)
  then have "py_split (join_space (py_split s)) = py_split s"
    unfolding py_split_def [of "join_space _"] by (rule split_from_join)
  then show ?thesis by simp
qed

lemma filter_absent: "c \<notin> set s \<Longrightarrow> filter (\<lambda>d. d \<noteq> c) s = s"
  by (induction s) auto

lemma nfkc_tm_no_tm: "8482 \<notin> set (nfkc_tm s)"
  by (induction s) (auto simp: nfkc_tm_def)

lemma nfkc_tm_id: "8482 \<notin> set s \<Longrightarrow> nfkc_tm s = s"
  by (induction s) (auto simp: nfkc_tm_def)

lemma nfkc_tm_stable:
  "nfkc_tm (join_space (py_split (nfkc_tm s))) = join_space (py_split (nfkc_tm s))"
proof -
  have "8482 \<notin> set (join_space (py_split (nfkc_tm s)))"
    using collapse_chars [of "nfkc_tm s"] nfkc_tm_no_tm [of s] by auto
  then show ?thesis by (rule nfkc_tm_id)
qed


lemma clean_mixed_name:
  "clean_name nfkc_tm mixed_name = u ''StatTrak M249 | Magma'' @ [226, 132, 162]"
  by (simp add: mixed_name_def u_def clean_name_def redecode_def latin1_encode_def nfkc_tm_def
      py_split_def py_isspace_def continuation_def)

lemma clean_clean_mixed_name:
  "clean_name nfkc_tm (u ''StatTrak M249 | Magma'' @ [226, 132, 162])
     = u ''StatTrak M249 | Magma''"
  by (simp add: u_def clean_name_def redecode_def latin1_encode_def nfkc_tm_def
      py_split_def py_isspace_def continuation_def)

text \<open>
  Claim C4, as stated: \<open>clean_name (clean_name x) = clean_name x\<close> for every \<open>x\<close>.  It fails
  on \<open>mixed_name\<close>: the trademark glyph makes the Latin-1 encoding fail in the first pass,
  is then removed, and the second pass decodes the remaining three code points into a
  trademark glyph and removes it too.
\<close>

theorem clean_name_not_idempotent:
  "clean_name nfkc_tm (clean_name nfkc_tm mixed_name) \<noteq> clean_name nfkc_tm mixed_name"
  unfolding clean_mixed_name clean_clean_mixed_name by (simp add: u_def)

text \<open>
  Claim C4, amended: \<open>clean_name\<close> is idempotent on every name whose cleaned form is left
  unchanged by the re-decoding step (in particular when it no longer contains code point
  226), for a normaliser whose results hold no trademark glyph and stay normalised when
  their whitespace is collapsed, as NFKC does.
\<close>

theorem clean_name_idempotent_after_redecode:
  assumes no_tm: "\<forall>s. 8482 \<notin> set (nfkc s)"
    and stable: "\<forall>s. nfkc (join_space (py_split (nfkc s))) = join_space (py_split (nfkc s))"
    and same: "redecode (clean_name nfkc x) = clean_name nfkc x"
  shows "clean_name nfkc (clean_name nfkc x) = clean_name nfkc x"
proof (cases "x = []")
  case True
  then show ?thesis by (simp add: clean_name_def)
next
  case False
  define w where "w = filter (\<lambda>c. c \<noteq> 8482) (redecode x)"
  define y where "y = join_space (py_split (nfkc w))"
  have y: "clean_name nfkc x = y"
    using False by (simp add: clean_name_def y_def w_def Let_def)
  have "8482 \<notin> set y"
    using collapse_chars [of "nfkc w"] no_tm unfolding y_def by auto
  then have f: "filter (\<lambda>c. c \<noteq> 8482) y = y" by (rule filter_absent)
  have n: "nfkc y = y" unfolding y_def using stable by simp
  have c: "join_space (py_split y) = y" unfolding y_def by (rule collapse_idem)
  have r: "redecode y = y" using same y by simp
  have "clean_name nfkc y = y"
  proof (cases "y = []")
    case True
    then show ?thesis by (simp add: clean_name_def)
  next
    case False
    then show ?thesis by (simp add: clean_name_def Let_def r f n c)
  qed
  then show ?thesis unfolding y .
qed

theorem clean_name_idempotent_after_redecode_witness:
  "clean_name nfkc_tm (clean_name nfkc_tm (u ''  AK-47 |  Redline '' @ [8482]))
     = u ''AK-47 | Redline''"
proof -
  let ?x = "u ''  AK-47 |  Redline '' @ [8482]"
  have v: "clean_name nfkc_tm ?x = u ''AK-47 | Redline''"
    by (simp add: u_def clean_name_def redecode_def nfkc_tm_def py_split_def py_isspace_def)
  have "redecode (u ''AK-47 | Redline'') = u ''AK-47 | Redline''"
    by (simp add: u_def redecode_def)
  then have same: "redecode (clean_name nfkc_tm ?x) = clean_name nfkc_tm ?x"
    unfolding v .
  have "clean_name nfkc_tm (clean_name nfkc_tm ?x) = clean_name nfkc_tm ?x"
    using clean_name_idempotent_after_redecode [of nfkc_tm ?x]
      nfkc_tm_no_tm nfkc_tm_stable same by blast
  then show ?thesis unfolding v .
qed

section \<open>Properties of the resolver\<close>

lemma first_seen_snoc:
  "first_seen (ks @ [k]) = (if k \<in> set ks then first_seen ks else first_seen ks @ [k])"
  by (simp add: first_seen_def)

lemma first_seen_set [simp]: "set (first_seen ks) = set ks"
  by (simp add: first_seen_def)

lemma first_seen_distinct [simp]: "distinct (first_seen ks)"
  by (simp add: first_seen_def)

lemma group_append_map:
  "group_append k x (map (\<lambda>j. (j, f j)) ks) =
     (if k \<in> set ks then map (\<lambda>j. (j, if j = k then f j @ [x] else f j)) ks
      else map (\<lambda>j. (j, f j)) ks @ [(k, [x])])"
  if "distinct ks"
  using that by (induction ks) auto

lemma group_items_eq:
  "group_items nfkc items =
     map (\<lambda>k. (k, filter (\<lambda>item. group_key nfkc item = k) items))
       (first_seen (map (group_key nfkc) items))"
proof (induction items rule: rev_induct)
  case Nil
  then show ?case by (simp add: group_items_def first_seen_def)
next
  case (snoc x xs)
  let ?key = "group_key nfkc"
  let ?ks = "first_seen (map ?key xs)"
  let ?F = "\<lambda>ys k. (k, filter (\<lambda>item. ?key item = k) ys)"
  have step: "group_items nfkc (xs @ [x]) = group_append (?key x) x (map (?F xs) ?ks)"
    by (simp add: group_items_def snoc.IH [unfolded group_items_def])
  show ?case
  proof (cases "?key x \<in> set (map ?key xs)")
    case True
    then have mem: "?key x \<in> set ?ks" by simp
    have ks: "first_seen (map ?key (xs @ [x])) = ?ks"
      using True by (simp add: first_seen_snoc)
    have "group_append (?key x) x (map (?F xs) ?ks)
        = map (\<lambda>j. (j, if j = ?key x then filter (\<lambda>item. ?key item = j) xs @ [x]
                         else filter (\<lambda>item. ?key item = j) xs)) ?ks"
      using mem by (simp add: group_append_map)
    also have "\<dots> = map (?F (xs @ [x])) ?ks"
      by (rule map_cong) auto
    finally show ?thesis
      unfolding step ks .
  next
    case False
    then have nin: "?key x \<notin> set ?ks" by simp
    have ks: "first_seen (map ?key (xs @ [x])) = ?ks @ [?key x]"
      using False by (simp add: first_seen_snoc)
    have "\<forall>item \<in> set xs. ?key item \<noteq> ?key x"
      using False by (metis imageI list.set_map)
    then have last: "?F (xs @ [x]) (?key x) = (?key x, [x])"
      by (simp add: filter_empty_conv)
    have same: "map (?F xs) ?ks = map (?F (xs @ [x])) ?ks"
      using nin by (intro map_cong) auto
    have "group_append (?key x) x (map (?F xs) ?ks) = map (?F xs) ?ks @ [(?key x, [x])]"
      using nin by (simp add: group_append_map)
    also have "\<dots> = map (?F (xs @ [x])) (?ks @ [?key x])"
      unfolding map_append same using last by simp
    finally show ?thesis
      unfolding step ks .
  qed
qed

lemma resolve_groups_eq:
  "resolve_groups groups (good, bad) =
     (good @ concat (map (group_good \<circ> snd) groups), bad @ concat (map (group_bad \<circ> snd) groups))"
  by (induction groups "(good, bad)" arbitrary: good bad rule: resolve_groups.induct)
    (auto simp: group_good_def group_bad_def Let_def split: option.splits)

lemma main_eq:
  "main nfkc items =
     (concat (map (\<lambda>k. group_good (filter (\<lambda>item. group_key nfkc item = k) items))
        (first_seen (map (group_key nfkc) items))),
      concat (map (\<lambda>k. group_bad (filter (\<lambda>item. group_key nfkc item = k) items))
        (first_seen (map (group_key nfkc) items))))"
  by (simp add: main_def resolve_groups_eq group_items_eq comp_def)

lemma find_filter: "find P (filter Q xs) = find (\<lambda>x. Q x \<and> P x) xs"
  by (induction xs) auto

lemma group_winner:
  "find is_candidate (filter (\<lambda>item. \<not> is_mine item) (filter (\<lambda>item. group_key nfkc item = k) items))
     = winner nfkc items k"
  by (simp add: find_filter winner_def conj_ac)

lemma winner_Some:
  assumes "winner nfkc items k = Some w"
  shows "w \<in> set items" "group_key nfkc w = k" "\<not> is_mine w" "is_candidate w"
  using assms unfolding winner_def by (auto simp: find_Some_iff)

lemma winner_None:
  "winner nfkc items k = None \<longleftrightarrow>
     (\<forall>item \<in> set items. group_key nfkc item = k \<longrightarrow> is_mine item \<or> \<not> is_candidate item)"
  unfolding winner_def by (auto simp: find_None_iff)

lemma group_good_eq:
  "group_good (filter (\<lambda>item. group_key nfkc item = k) items)
     = (case winner nfkc items k of Some w \<Rightarrow> [project w] | None \<Rightarrow> [])"
  unfolding group_good_def group_winner ..

lemma group_bad_eq:
  "group_bad (filter (\<lambda>item. group_key nfkc item = k) items)
     = map project (filter (\<lambda>item. group_key nfkc item = k \<and> rejected nfkc items item) items)"
proof (cases "winner nfkc items k")
  case None
  have r: "rejected nfkc items item" if "group_key nfkc item = k" for item
    using that by (simp add: rejected_def None)
  have "filter (\<lambda>item. group_key nfkc item = k) items
      = filter (\<lambda>item. group_key nfkc item = k \<and> rejected nfkc items item) items"
    by (rule filter_cong) (auto simp: r)
  then show ?thesis unfolding group_bad_def group_winner None by simp
next
  case (Some w)
  have r: "rejected nfkc items item = is_mine item" if "group_key nfkc item = k" for item
    using that by (simp add: rejected_def Some)
  have "filter is_mine (filter (\<lambda>item. group_key nfkc item = k) items)
      = filter (\<lambda>item. group_key nfkc item = k \<and> rejected nfkc items item) items"
    unfolding filter_filter by (rule filter_cong) (auto simp: r)
  then show ?thesis unfolding group_bad_def group_winner Some by simp
qed

lemma sum_list_single:
  "distinct ks \<Longrightarrow> k0 \<in> set ks \<Longrightarrow>
     (\<Sum>k\<leftarrow>ks. if k0 = k then (m :: 'a multiset) else {#}) = m"
proof (induction ks)
  case Nil
  then show ?case by simp
next
  case (Cons k ks)
  show ?case
  proof (cases "k0 = k")
    case True
    then have "k0 \<notin> set ks" using Cons.prems by simp
    then have "(\<Sum>j\<leftarrow>ks. if k0 = j then m else {#}) = {#}"
      by (induction ks) auto
    then show ?thesis using True by simp
  next
    case False
    then show ?thesis using Cons by simp
  qed
qed

lemma mset_by_key:
  assumes "distinct ks" and "kf ` set xs \<subseteq> set ks"
  shows "(\<Sum>k\<leftarrow>ks. mset (filter (\<lambda>x. kf x = k \<and> R x) xs)) = mset (filter R xs)"
  using assms(2)
proof (induction xs)
  case Nil
  then show ?case by (simp add: sum_list_0)
next
  case (Cons x xs)
  then have ih: "(\<Sum>k\<leftarrow>ks. mset (filter (\<lambda>x. kf x = k \<and> R x) xs)) = mset (filter R xs)"
    by simp
  have mem: "kf x \<in> set ks" using Cons.prems by simp
  have "(\<Sum>k\<leftarrow>ks. mset (filter (\<lambda>x. kf x = k \<and> R x) (x # xs)))
      = (\<Sum>k\<leftarrow>ks. (if kf x = k then (if R x then {#x#} else {#}) else {#})
            + mset (filter (\<lambda>x. kf x = k \<and> R x) xs))"
    by (rule arg_cong [where f = sum_list], rule map_cong) auto
  also have "\<dots> = (\<Sum>k\<leftarrow>ks. if kf x = k then (if R x then {#x#} else {#}) else {#})
            + (\<Sum>k\<leftarrow>ks. mset (filter (\<lambda>x. kf x = k \<and> R x) xs))"
    by (rule sum_list_addf)
  also have "\<dots> = (if R x then {#x#} else {#}) + mset (filter R xs)"
    unfolding ih by (simp add: sum_list_single [OF assms(1) mem])
  finally show ?case by simp
qed

lemma concat_case_option:
  "concat (map (\<lambda>k. case f k of Some w \<Rightarrow> [g w] | None \<Rightarrow> []) ks) = map g (List.map_filter f ks)"
  by (induction ks) (auto simp: map_filter_simps split: option.splits)

lemma good_eq: "fst (main nfkc items) = map project (winners nfkc items)"
  by (simp add: main_eq group_good_eq winners_def concat_case_option)

lemma bad_eq:
  "snd (main nfkc items) =
     map project (concat (map (\<lambda>k. filter (\<lambda>item. group_key nfkc item = k \<and> rejected nfkc items item) items)
        (first_seen (map (group_key nfkc) items))))"
  by (simp add: main_eq group_bad_eq map_concat comp_def)

lemma bad_mset:
  "mset (snd (main nfkc items)) = image_mset project (mset (filter (rejected nfkc items) items))"
proof -
  let ?ks = "first_seen (map (group_key nfkc) items)"
  have "(\<Sum>k\<leftarrow>?ks. mset (filter (\<lambda>item. group_key nfkc item = k \<and> rejected nfkc items item) items))
      = mset (filter (rejected nfkc items) items)"
    by (rule mset_by_key) simp_all
  then show ?thesis
    by (simp add: bad_eq mset_concat comp_def)
qed

lemma winners_set:
  "w \<in> set (winners nfkc items) \<longleftrightarrow> (\<exists>k. winner nfkc items k = Some w)"
proof
  assume "w \<in> set (winners nfkc items)"
  then show "\<exists>k. winner nfkc items k = Some w"
    by (auto simp: winners_def map_filter_def)
next
  assume "\<exists>k. winner nfkc items k = Some w"
  then obtain k where k: "winner nfkc items k = Some w" ..
  then have "k \<in> set (first_seen (map (group_key nfkc) items))"
    using winner_Some(1,2) [OF k] by auto
  then show "w \<in> set (winners nfkc items)"
    using k by (force simp: winners_def map_filter_def)
qed

lemma winners_keys:
  "map (group_key nfkc) (winners nfkc items)
     = filter (\<lambda>k. winner nfkc items k \<noteq> None) (first_seen (map (group_key nfkc) items))"
proof -
  have "map (group_key nfkc) (List.map_filter (winner nfkc items) ks)
      = filter (\<lambda>k. winner nfkc items k \<noteq> None) ks" for ks
    by (induction ks) (auto simp: map_filter_simps winner_Some(2) split: option.splits)
  then show ?thesis by (simp add: winners_def)
qed

lemma winners_distinct_keys: "distinct (map (group_key nfkc) (winners nfkc items))"
  by (simp add: winners_keys)

lemma winner_of_own_key:
  assumes "w \<in> set (winners nfkc items)"
  shows "winner nfkc items (group_key nfkc w) = Some w"
proof -
  from assms obtain k where k: "winner nfkc items k = Some w"
    by (auto simp: winners_set)
  with winner_Some(2) [OF k] show ?thesis by simp
qed

lemma projection_key_project [simp]:
  "projection_key nfkc (project item) = group_key nfkc item"
  by (simp add: projection_key_def project_def group_key_def)

lemma distinct_map_filter_le_1:
  "distinct (map f xs) \<Longrightarrow> length (filter (\<lambda>x. f x = k) xs) \<le> 1"
proof (induction xs)
  case Nil
  then show ?case by simp
next
  case (Cons x xs)
  show ?case
  proof (cases "f x = k")
    case True
    from Cons.prems have "f x \<notin> set (map f xs)" by simp
    then have "\<forall>y \<in> set xs. f y \<noteq> f x" by (metis imageI list.set_map)
    then have "\<forall>y \<in> set xs. f y \<noteq> k" using True by simp
    then have "filter (\<lambda>x. f x = k) xs = []" by (simp add: filter_empty_conv)
    then show ?thesis using True by simp
  next
    case False
    then show ?thesis using Cons by simp
  qed
qed

lemma good_at_most_one:
  "length (filter (\<lambda>p. projection_key nfkc p = k) (fst (main nfkc items))) \<le> 1"
proof -
  have "length (filter (\<lambda>p. projection_key nfkc p = k) (fst (main nfkc items)))
      = length (filter (\<lambda>w. group_key nfkc w = k) (winners nfkc items))"
    by (simp add: good_eq filter_map comp_def)
  also have "\<dots> \<le> 1"
    using winners_distinct_keys by (rule distinct_map_filter_le_1)
  finally show ?thesis .
qed

lemma distinct_subset_mset:
  "distinct xs \<Longrightarrow> set xs \<subseteq> set ys \<Longrightarrow> mset xs \<subseteq># mset ys"
proof (rule mset_subset_eqI)
  fix a
  assume d: "distinct xs" and s: "set xs \<subseteq> set ys"
  show "count (mset xs) a \<le> count (mset ys) a"
  proof (cases "a \<in> set xs")
    case True
    then have "count (mset xs) a = 1" using d by (simp add: distinct_count_atmost_1)
    moreover have "a \<in> set ys" using True s by blast
    then have "1 \<le> count (mset ys) a" by (simp add: Suc_le_eq)
    ultimately show ?thesis by simp
  next
    case False
    then have "count (mset xs) a = 0" by (simp add: count_mset count_list_0_iff)
    then show ?thesis by linarith
  qed
qed

lemma winners_not_rejected:
  "mset (winners nfkc items) \<subseteq># mset (filter (\<lambda>item. \<not> rejected nfkc items item) items)"
proof (rule distinct_subset_mset)
  show "distinct (winners nfkc items)"
    using winners_distinct_keys [of nfkc items] by (simp add: distinct_map)
  show "set (winners nfkc items) \<subseteq> set (filter (\<lambda>item. \<not> rejected nfkc items item) items)"
  proof
    fix w
    assume w: "w \<in> set (winners nfkc items)"
    then have own: "winner nfkc items (group_key nfkc w) = Some w"
      by (rule winner_of_own_key)
    show "w \<in> set (filter (\<lambda>item. \<not> rejected nfkc items item) items)"
      using winner_Some(1,3) [OF own] own by (simp add: rejected_def)
  qed
qed

lemma good_bad_mset:
  "mset (fst (main nfkc items)) + mset (snd (main nfkc items)) \<subseteq># image_mset project (mset items)"
proof -
  have "mset (winners nfkc items) + mset (filter (rejected nfkc items) items)
      \<subseteq># mset (filter (\<lambda>item. \<not> rejected nfkc items item) items)
          + mset (filter (rejected nfkc items) items)"
    using winners_not_rejected by (rule subset_mset.add_right_mono)
  also have "\<dots> = mset items"
    by (simp add: add.commute)
  finally have "image_mset project (mset (winners nfkc items) + mset (filter (rejected nfkc items) items))
      \<subseteq># image_mset project (mset items)"
    by (rule image_mset_subseteq_mono)
  then show ?thesis by (simp add: good_eq bad_mset)
qed

lemma distinct_singleton: "distinct ks \<Longrightarrow> set ks = {k} \<Longrightarrow> ks = [k]"
proof (cases ks)
  case Nil
  assume "set ks = {k}"
  with Nil show ?thesis by simp
next
  case (Cons x xs)
  assume d: "distinct ks" and s: "set ks = {k}"
  from s Cons have x: "x = k" by auto
  from s Cons have sub: "set xs \<subseteq> {k}" by auto
  from d Cons x have nin: "k \<notin> set xs" by simp
  have "xs = []"
  proof (cases xs)
    case Nil
    then show ?thesis .
  next
    case (Cons y ys)
    then have y: "y \<in> set xs" by simp
    with sub have "y = k" by blast
    with nin y show ?thesis by simp
  qed
  then show ?thesis using Cons x by simp
qed

lemma mine_rejected_mset:
  "image_mset project (mset (filter is_mine items)) \<subseteq># mset (snd (main nfkc items))"
proof -
  have "filter is_mine items = filter is_mine (filter (rejected nfkc items) items)"
    unfolding filter_filter by (rule filter_cong) (auto simp: rejected_def)
  then have "mset (filter is_mine items) \<subseteq># mset (filter (rejected nfkc items) items)"
    by (metis mset_filter multiset_filter_subset)
  then show ?thesis
    unfolding bad_mset by (rule image_mset_subseteq_mono)
qed

lemma good_not_mine:
  assumes "p \<in> set (fst (main nfkc items))"
  shows "\<not> endswith (p_name p) MINE"
proof -
  from assms obtain w where w: "w \<in> set (winners nfkc items)" and p: "p = project w"
    by (auto simp: good_eq)
  from winner_of_own_key [OF w] have "\<not> is_mine w" by (rule winner_Some(3))
  then show ?thesis by (simp add: p project_def is_mine_def)
qed

lemma one_regular_two_mine:
  assumes items: "mset items = {#a, m1, m2#}"
    and a: "\<not> is_mine a" "is_candidate a"
    and m: "is_mine m1" "is_mine m2"
    and k: "group_key nfkc m1 = group_key nfkc a" "group_key nfkc m2 = group_key nfkc a"
  shows "fst (main nfkc items) = [project a]"
    and "mset (snd (main nfkc items)) = {#project m1, project m2#}"
proof -
  let ?k = "group_key nfkc a"
  have set_items: "set items = {a, m1, m2}"
    using items by (metis set_mset_mset set_mset_add_mset_insert set_mset_empty)
  have "winner nfkc items ?k \<noteq> None"
    using a set_items by (auto simp: winner_None)
  then obtain w where w: "winner nfkc items ?k = Some w" by auto
  have "w \<in> set items" "\<not> is_mine w"
    using winner_Some(1,3) [OF w] by simp_all
  then have "w = a" using set_items m by auto
  with w have win: "winner nfkc items ?k = Some a" by simp
  have "set (first_seen (map (group_key nfkc) items)) = {?k}"
    using set_items k by simp
  then have ks: "first_seen (map (group_key nfkc) items) = [?k]"
    by (intro distinct_singleton first_seen_distinct)
  show "fst (main nfkc items) = [project a]"
    by (simp add: good_eq winners_def ks map_filter_simps win)
  have rej: "\<not> rejected nfkc items a" "rejected nfkc items m1" "rejected nfkc items m2"
    using a m win by (simp_all add: rejected_def)
  have "mset (filter (rejected nfkc items) items) = filter_mset (rejected nfkc items) {#a, m1, m2#}"
    by (simp add: items [symmetric])
  also have "\<dots> = {#m1, m2#}"
    using rej by simp
  finally show "mset (snd (main nfkc items)) = {#project m1, project m2#}"
    by (simp add: bad_mset)
qed

text \<open>
  Claim C9.  No record whose name ends in \<open>" MINE"\<close> is ever emitted to the good output;
  every self-owned record is emitted to the bad output (with its multiplicity), whatever
  its own candidacy; and a group of one qualifying regular record and two self-owned
  variants, in any input order, yields exactly that regular record as the one good entry
  and the two variants as the two bad entries.
\<close>

theorem self_owned_never_good:
  "(\<forall>p \<in> set (fst (main nfkc items)). \<not> endswith (p_name p) MINE)
   \<and> image_mset project (mset (filter is_mine items)) \<subseteq># mset (snd (main nfkc items))
   \<and> (mset items = {#a, m1, m2#} \<and> \<not> is_mine a \<and> is_candidate a \<and> is_mine m1 \<and> is_mine m2
        \<and> group_key nfkc m1 = group_key nfkc a \<and> group_key nfkc m2 = group_key nfkc a
      \<longrightarrow> fst (main nfkc items) = [project a]
          \<and> mset (snd (main nfkc items)) = {#project m1, project m2#})"
  using good_not_mine [of _ nfkc items] mine_rejected_mset [of items nfkc]
    one_regular_two_mine [of items a m1 m2 nfkc]
  by blast

text \<open>
  Claim C1, amended.  Each group has at most one entry in the good output; every good entry
  is the projection of the first regular candidate of its group in input order, and every
  group with such a record has it in the good output; the bad output holds exactly the
  self-owned records and all records of the groups without a winner; the other regular
  records of a group with a winner are emitted to neither output, so each input record
  appears in at most one of the two outputs.
\<close>

theorem resolver_outputs:
  "(\<forall>k. length (filter (\<lambda>p. projection_key nfkc p = k) (fst (main nfkc items))) \<le> 1)
   \<and> (\<forall>p \<in> set (fst (main nfkc items)).
        \<exists>w. winner nfkc items (projection_key nfkc p) = Some w \<and> p = project w)
   \<and> (\<forall>k w. winner nfkc items k = Some w \<longrightarrow> project w \<in> set (fst (main nfkc items)))
   \<and> mset (snd (main nfkc items)) = image_mset project (mset (filter (rejected nfkc items) items))
   \<and> mset (fst (main nfkc items)) + mset (snd (main nfkc items))
        \<subseteq># image_mset project (mset items)"
proof -
  have one: "\<forall>k. length (filter (\<lambda>p. projection_key nfkc p = k) (fst (main nfkc items))) \<le> 1"
    using good_at_most_one [of nfkc _ items] by blast
  have first: "\<forall>p \<in> set (fst (main nfkc items)).
        \<exists>w. winner nfkc items (projection_key nfkc p) = Some w \<and> p = project w"
  proof
    fix p
    assume "p \<in> set (fst (main nfkc items))"
    then obtain w where w: "w \<in> set (winners nfkc items)" and p: "p = project w"
      by (auto simp: good_eq)
    from winner_of_own_key [OF w] show "\<exists>w. winner nfkc items (projection_key nfkc p) = Some w \<and> p = project w"
      using p by auto
  qed
  have all: "\<forall>k w. winner nfkc items k = Some w \<longrightarrow> project w \<in> set (fst (main nfkc items))"
    using winners_set [of _ nfkc items] by (auto simp: good_eq)
  show ?thesis
    using one first all bad_mset [of nfkc items] good_bad_mset [of nfkc items] by blast
qed

lemma clean_ak: "clean_name nfkc_tm (u ''AK-47'') = u ''AK-47''"
  by (simp add: u_def clean_name_def redecode_def nfkc_tm_def py_split_def py_isspace_def)

lemma clean_ak_mine: "clean_name nfkc_tm (u ''AK-47 MINE'') = u ''AK-47 MINE''"
  by (simp add: u_def clean_name_def redecode_def nfkc_tm_def py_split_def py_isspace_def)

lemma base_ak: "base_name (u ''AK-47'') = u ''AK-47''"
  by (simp add: u_def base_name_def endswith_def MINE_def)

lemma base_ak_mine: "base_name (u ''AK-47 MINE'') = u ''AK-47''"
  by (simp add: u_def base_name_def endswith_def MINE_def py_strip_def py_isspace_def)

lemma sample_keys:
  "group_key nfkc_tm regular_a = u ''AK-47''" "group_key nfkc_tm regular_b = u ''AK-47''"
  "group_key nfkc_tm mine_1 = u ''AK-47''" "group_key nfkc_tm mine_2 = u ''AK-47''"
  by (simp_all add: group_key_def regular_a_def regular_b_def mine_1_def mine_2_def bare_def
      clean_ak clean_ak_mine base_ak base_ak_mine)

lemma sample_mine:
  "\<not> is_mine regular_a" "\<not> is_mine regular_b" "is_mine mine_1" "is_mine mine_2"
  by (simp_all add: is_mine_def regular_a_def regular_b_def mine_1_def mine_2_def bare_def
      u_def endswith_def MINE_def)

lemma sample_candidates:
  "is_candidate regular_a" "\<not> is_candidate regular_b" "is_candidate mine_1"
  by (simp_all add: is_candidate_def is_good_candidate_def passes_profit_margin_def
      get_sales_def truthy_list_def margin_reaches_def MIN_SALES_EXCEPTION_def
      regular_a_def regular_b_def mine_1_def bare_def)

lemma sample_projections: "project regular_b \<noteq> project regular_a"
  by (simp add: project_def regular_a_def regular_b_def bare_def u_def)

text \<open>
  Claim C1, as stated: every record other than the winner is emitted to the bad output and
  each input record appears in exactly one of the two outputs.  It fails for a second
  regular record in a group that has a winner: it is emitted to neither output.
\<close>

theorem losing_regular_record_dropped:
  "project regular_b \<notin> set (fst (main nfkc_tm [regular_a, regular_b]))
   \<and> project regular_b \<notin> set (snd (main nfkc_tm [regular_a, regular_b]))"
proof -
  have "main nfkc_tm [regular_a, regular_b] = ([project regular_a], [])"
    by (simp add: main_def group_items_def sample_keys sample_mine sample_candidates)
  then show ?thesis using sample_projections by simp
qed

theorem self_owned_never_good_witness:
  "fst (main nfkc_tm [regular_a, mine_1, mine_2]) = [project regular_a]
   \<and> mset (snd (main nfkc_tm [regular_a, mine_1, mine_2])) = {#project mine_1, project mine_2#}"
  using self_owned_never_good [of nfkc_tm "[regular_a, mine_1, mine_2]" regular_a mine_1 mine_2]
  by (simp add: sample_keys sample_mine sample_candidates)

theorem resolver_outputs_witness:
  "length (filter (\<lambda>p. projection_key nfkc_tm p = u ''AK-47'')
      (fst (main nfkc_tm [regular_a, regular_b, mine_1]))) \<le> 1
   \<and> project regular_a \<in> set (fst (main nfkc_tm [regular_a, regular_b, mine_1]))
   \<and> mset (snd (main nfkc_tm [regular_a, regular_b, mine_1])) = {#project mine_1#}"
proof -
  let ?items = "[regular_a, regular_b, mine_1]"
  have w: "winner nfkc_tm ?items (u ''AK-47'') = Some regular_a"
    by (simp add: winner_def sample_keys sample_mine sample_candidates)
  have r: "filter (rejected nfkc_tm ?items) ?items = [mine_1]"
    by (simp add: rejected_def sample_keys sample_mine w)
  have one: "length (filter (\<lambda>p. projection_key nfkc_tm p = u ''AK-47'') (fst (main nfkc_tm ?items))) \<le> 1"
    using resolver_outputs [of nfkc_tm ?items] by blast
  have two: "project regular_a \<in> set (fst (main nfkc_tm ?items))"
    using resolver_outputs [of nfkc_tm ?items] w by blast
  have three: "mset (snd (main nfkc_tm ?items)) = {#project mine_1#}"
    using resolver_outputs [of nfkc_tm ?items] unfolding r by simp
  from one two three show ?thesis by blast
qed


section \<open>Properties of the transformer\<close>

lemma price_facts:
  "parse_price table_runtime (u ''$1.00'') = Some 1"
  "parse_price table_runtime (u ''$2.00'') = Some 2"
  "parse_price table_runtime (u ''$1.50'') = Some 1.5"
  "parse_price table_runtime (u ''$0.00'') = Some 0"
  "parse_price table_runtime (u ''abc'') = None"
  "parse_price table_runtime (u ''n/a'') = None"
  by (simp_all add: parse_price_def table_runtime_def u_def py_strip_def py_isspace_def)

lemma date_fact:
  "parse_date table_runtime (Some (u ''2025-03-01'')) = Some 1740787200000000"
  by (simp add: parse_date_def date_formats_def table_runtime_def u_def)

lemma u_nonempty [simp]: "u (c # s) \<noteq> []"
  by (simp add: u_def)

lemma table_nfkc [simp]: "normalize_NFKC table_runtime = nfkc_tm"
  by (simp add: table_runtime_def)

lemma sample_sales:
  "sale_step table_runtime t acc (sold ''n/a'' d) = acc"
  "sale_step table_runtime (mid_march - thirty_days) (n, xs) (sold ''$1.50'' ''2025-03-01'') =
     (n + 1, xs @ [\<lparr>si_price = 1.5, si_date_time = Some (u ''2025-03-01''),
                     si_operation = Some (u ''Target'')\<rparr>])"
  by (simp_all add: sale_step_def sold_def price_facts date_fact get_def truthy_def
      thirty_days_def mid_march_def split: prod.splits)

text \<open>
  When every priced entry parses, the two lists are set, whatever happens later in the
  \<open>try\<close> block: the offers are the first three of the ascending sort, the targets the first
  three of the descending sort.
\<close>

lemma transform_item_price_lists:
  assumes "parse_entries rt (offer_prices r) = Inr os"
    and "parse_entries rt (target_prices r) = Inr ts"
  shows "offer_prices_list (transform_item rt now r) = Some (take 3 (sort os))"
    and "target_price_list (transform_item rt now r) = Some (take 3 (rev (sort ts)))"
  using assms
  by (simp_all add: transform_item_def transform_body_def Let_def bare_def
      split: prod.splits sum.splits)

text \<open>
  When an offer price does not parse, the \<open>try\<close> block is left with only the sales count and
  the recent sales set.
\<close>

lemma transform_item_offer_failure:
  assumes "parse_entries rt (offer_prices r) = Inl e"
  shows "transform_body rt now r =
     (let (monthly_sales, recent_sales_data) =
            foldl (sale_step rt (now - thirty_days)) (0, []) (sales_history r)
      in (bare (clean_name (normalize_NFKC rt)
                 (case raw_name r of Absent \<Rightarrow> [] | Null \<Rightarrow> [] | Text s \<Rightarrow> s))
               (case raw_wear r of Absent \<Rightarrow> Some [] | Null \<Rightarrow> None | Text s \<Rightarrow> Some s)
            \<lparr>sales := Some monthly_sales, recent_sales_prices := Some recent_sales_data\<rparr>,
          Some e))"
  using assms
  by (simp add: transform_body_def Let_def split: prod.splits)

text \<open>With no offer and no target, both margins are \<open>0.01 / 0.01\<close>.\<close>

lemma margin_defaults:
  assumes "parse_entries rt (offer_prices r) = Inr []"
    and "parse_entries rt (target_prices r) = Inr []"
  shows "profit_margin_pair1 (transform_item rt now r) = Some 1"
    and "profit_margin_pair2 (transform_item rt now r) = Some 1"
  using assms
  by (simp_all add: transform_item_def transform_body_def Let_def bare_def truediv_def
      split: prod.splits)

text \<open>
  Claim C2, on the code: of two sales the one with the malformed price \<open>n/a\<close> is skipped and the
  other is counted, but the malformed offer price \<open>abc\<close> raises \<open>ValueError\<close> out of the
  list comprehension, which only the outer handler catches: the record is returned with
  neither the offer list nor the target list (whose one price is well formed), and without
  the profit margins, the mean and the variance.
\<close>

theorem malformed_offer_price_discards_fields:
  "transform_body table_runtime mid_march raw_malformed_offer =
     (bare (u ''AK-47'') (Some (u ''FN''))
        \<lparr>sales := Some 1,
         recent_sales_prices :=
           Some [\<lparr>si_price = 1.5, si_date_time = Some (u ''2025-03-01''),
                  si_operation = Some (u ''Target'')\<rparr>]\<rparr>,
      Some ValueError)"
  by (simp add: transform_body_def raw_malformed_offer_def sample_sales priced_def price_facts
      clean_ak Let_def)

text \<open>
  Claim C3, on the code: with the offer \<open>$1.00\<close> and the target \<open>$0.00\<close> the first margin is
  \<open>1.0 / 0.0\<close>, which raises \<open>ZeroDivisionError\<close>; the record is returned with both lists
  and without the profit margins, the mean and the variance.
\<close>

theorem zero_target_price_division_error:
  "transform_body table_runtime mid_march raw_zero_target =
     (bare (u ''AK-47'') (Some (u ''FN''))
        \<lparr>sales := Some 0, recent_sales_prices := Some [],
         offer_prices_list := Some [1], offer_prices_quantity := Some 1,
         target_price_list := Some [0], target_price_list_quantity := Some 1\<rparr>,
      Some ZeroDivisionError)"
  by (simp add: transform_body_def raw_zero_target_def priced_def price_facts clean_ak
      truediv_def)

text \<open>
  Claim C8, on the code: with the offers \<open>$2.00\<close>, \<open>abc\<close>, \<open>$1.00\<close> and the targets \<open>$1.00\<close>,
  \<open>$2.00\<close> the transformed record has no offer list and no target list, where the claim
  gives the offers \<open>1.0, 2.0\<close> and the targets \<open>2.0, 1.0\<close>.
\<close>

theorem malformed_entry_leaves_no_price_lists:
  "offer_prices_list (transform_item table_runtime mid_march raw_mixed_offers) = None \<and>
   target_price_list (transform_item table_runtime mid_march raw_mixed_offers) = None"
  by (simp add: transform_item_def transform_body_def raw_mixed_offers_def priced_def price_facts
      clean_ak Let_def bare_def)


section \<open>Properties of the evaluator on arbitrary dictionaries\<close>

lemma py_lt_number: "is_number v \<Longrightarrow> \<exists>b. py_lt v c = Inr b"
  by (cases v) (simp_all add: py_lt_def)

lemma py_ge_number: "is_number v \<Longrightarrow> \<exists>b. py_ge v c = Inr b"
  by (cases v) (simp_all add: py_ge_def)

lemma py_len_list: "is_list v \<Longrightarrow> \<exists>n. py_len v = Inr n"
  by (cases v) simp_all

text \<open>Every record of type \<open>analytic\<close>, so every result of \<open>transform_item\<close>, is typed.\<close>

lemma as_dict_typed: "typed_record (as_dict item)"
  by (simp add: typed_record_def as_dict_def absent_or_def split: option.splits)

text \<open>
  On the dictionary of a record of type \<open>analytic\<close> the two predicates return, and return
  what the predicates on \<open>analytic\<close> give.
\<close>

lemma is_good_candidate_refines:
  "is_good_candidate_dyn (as_dict item) = Inr (is_good_candidate item)"
  by (auto simp: is_good_candidate_dyn_def is_good_candidate_def as_dict_def dict_get_def
      py_lt_def get_sales_def truthy_list_def Let_def split: option.splits)

lemma passes_profit_margin_refines:
  "passes_profit_margin_dyn (as_dict item) = Inr (passes_profit_margin item)"
  by (auto simp: passes_profit_margin_dyn_def passes_profit_margin_def as_dict_def dict_get_def
      py_lt_def py_ge_def get_sales_def margin_reaches_def margin_reaches_dyn_def Let_def
      split: option.splits)

lemma missing_sales:
  assumes "item ''sales'' = None"
  shows "is_good_candidate_dyn item = Inr False" and "passes_profit_margin_dyn item = Inr False"
  using assms
  by (simp_all add: is_good_candidate_dyn_def passes_profit_margin_dyn_def dict_get_def py_lt_def
      MIN_SALES_EXCEPTION_def)

lemma typed_good:
  assumes "typed_record item"
  shows "\<exists>b. is_good_candidate_dyn item = Inr b"
proof -
  obtain below where
    below: "py_lt (dict_get item ''sales'' (PInt 0)) (of_int MIN_SALES_EXCEPTION) = Inr below"
    using assms py_lt_number [of "dict_get item ''sales'' (PInt 0)"]
    by (auto simp: typed_record_def absent_or_def dict_get_def split: option.splits)
  obtain offer_qty where
    offer: "py_len (dict_get item ''offer_prices_list'' (PList [])) = Inr offer_qty"
    using assms py_len_list [of "dict_get item ''offer_prices_list'' (PList [])"]
    by (auto simp: typed_record_def absent_or_def dict_get_def split: option.splits)
  obtain target_qty where
    target: "py_len (dict_get item ''target_price_list'' (PList [])) = Inr target_qty"
    using assms py_len_list [of "dict_get item ''target_price_list'' (PList [])"]
    by (auto simp: typed_record_def absent_or_def dict_get_def split: option.splits)
  show ?thesis
    by (auto simp: is_good_candidate_dyn_def below offer target)
qed

lemma margin_typed:
  assumes "absent_or is_number (item k)"
  shows "\<exists>b. margin_reaches_dyn (dict_get item k PNone) factor = Inr b"
  using assms py_ge_number [of "dict_get item k PNone" factor]
  by (auto simp: margin_reaches_dyn_def absent_or_def dict_get_def split: option.splits)

lemma margin_missing:
  assumes "item k = None"
  shows "margin_reaches_dyn (dict_get item k PNone) factor = Inr False"
  using assms by (simp add: margin_reaches_dyn_def dict_get_def)

lemma typed_margin:
  assumes "typed_record item"
  shows "\<exists>b. passes_profit_margin_dyn item = Inr b"
    and "item ''profit_margin_pair1'' = None \<and> item ''profit_margin_pair2'' = None \<longrightarrow>
           passes_profit_margin_dyn item = Inr False"
proof -
  let ?sales = "dict_get item ''sales'' (PInt 0)"
  have num: "is_number ?sales"
    using assms by (auto simp: typed_record_def absent_or_def dict_get_def split: option.splits)
  obtain below where below: "py_lt ?sales (of_int MIN_SALES_EXCEPTION) = Inr below"
    using py_lt_number [OF num] by blast
  obtain normal where normal: "py_ge ?sales (of_int MIN_SALES_NORMAL) = Inr normal"
    using py_ge_number [OF num] by blast
  define factor where "factor = (if normal then PROFIT_MARGIN_NORMAL else PROFIT_MARGIN_EXCEPTION)"
  obtain r1 where
    r1: "margin_reaches_dyn (dict_get item ''profit_margin_pair1'' PNone) factor = Inr r1"
    using assms margin_typed [of item "''profit_margin_pair1''" factor]
    by (auto simp: typed_record_def)
  obtain r2 where
    r2: "margin_reaches_dyn (dict_get item ''profit_margin_pair2'' PNone) factor = Inr r2"
    using assms margin_typed [of item "''profit_margin_pair2''" factor]
    by (auto simp: typed_record_def)
  have eq: "passes_profit_margin_dyn item = Inr (\<not> below \<and> (r1 \<or> r2))"
    using r1 r2 by (simp add: passes_profit_margin_dyn_def below normal factor_def Let_def)
  show "\<exists>b. passes_profit_margin_dyn item = Inr b"
    using eq by blast
  show "item ''profit_margin_pair1'' = None \<and> item ''profit_margin_pair2'' = None \<longrightarrow>
           passes_profit_margin_dyn item = Inr False"
  proof
    assume missing: "item ''profit_margin_pair1'' = None \<and> item ''profit_margin_pair2'' = None"
    have "r1 = False" "r2 = False"
      using r1 r2 missing margin_missing [of item _ factor] by simp_all
    then show "passes_profit_margin_dyn item = Inr False"
      using eq by simp
  qed
qed

text \<open>
  Claim C10, as stated: for every record dictionary \<open>is_good_candidate\<close> and
  \<open>passes_profit_margin\<close> never raise.  It fails on \<open>{"sales": None}\<close>: the key is present,
  so \<open>item.get("sales", 0)\<close> is \<open>None\<close>, and \<open>None < 7\<close> raises \<open>TypeError\<close> in both.
\<close>

theorem evaluator_raises_on_none_sales:
  "is_good_candidate_dyn none_sales = Inl TypeError
   \<and> passes_profit_margin_dyn none_sales = Inl TypeError"
  by (simp add: is_good_candidate_dyn_def passes_profit_margin_dyn_def none_sales_def
      dict_get_def py_lt_def)

text \<open>
  Claim C10, amended.  A dictionary without the key \<open>sales\<close> is treated as having 0 sales and
  is rejected by both predicates, neither raising, whatever its other keys hold.  On every
  dictionary whose keys, where present, hold values of the kind the transformer writes
  (any of them may be missing) the two predicates return a boolean and never raise, and
  \<open>passes_profit_margin\<close> rejects the dictionary when both margins are missing.  Every record
  returned by \<open>transform_item\<close> is such a dictionary.
\<close>

theorem evaluator_total_on_typed_records:
  "(item ''sales'' = None \<longrightarrow>
      is_good_candidate_dyn item = Inr False \<and> passes_profit_margin_dyn item = Inr False)
   \<and> (typed_record item \<longrightarrow>
        (\<exists>b. is_good_candidate_dyn item = Inr b)
        \<and> (\<exists>b. passes_profit_margin_dyn item = Inr b)
        \<and> (item ''profit_margin_pair1'' = None \<and> item ''profit_margin_pair2'' = None \<longrightarrow>
             passes_profit_margin_dyn item = Inr False))
   \<and> typed_record (as_dict (transform_item rt now raw_item))"
proof (intro conjI impI)
  assume "item ''sales'' = None"
  then show "is_good_candidate_dyn item = Inr False" and "passes_profit_margin_dyn item = Inr False"
    by (rule missing_sales)+
next
  assume "typed_record item"
  then show "\<exists>b. is_good_candidate_dyn item = Inr b" and "\<exists>b. passes_profit_margin_dyn item = Inr b"
    by (rule typed_good, rule typed_margin(1))
next
  assume "typed_record item"
    and "item ''profit_margin_pair1'' = None \<and> item ''profit_margin_pair2'' = None"
  then show "passes_profit_margin_dyn item = Inr False"
    using typed_margin(2) by blast
next
  show "typed_record (as_dict (transform_item rt now raw_item))"
    by (rule as_dict_typed)
qed

theorem evaluator_total_on_typed_records_witness:
  "no_sales_record ''sales'' = None
   \<and> is_good_candidate_dyn no_sales_record = Inr False
   \<and> passes_profit_margin_dyn no_sales_record = Inr False
   \<and> typed_record no_margin_record
   \<and> no_margin_record ''profit_margin_pair1'' = None
   \<and> no_margin_record ''profit_margin_pair2'' = None
   \<and> passes_profit_margin_dyn no_margin_record = Inr False"
proof -
  have missing: "no_sales_record ''sales'' = None"
    by (simp add: no_sales_record_def)
  have typed: "typed_record no_margin_record"
    by (simp add: no_margin_record_def typed_record_def absent_or_def)
  have margins: "no_margin_record ''profit_margin_pair1'' = None
      \<and> no_margin_record ''profit_margin_pair2'' = None"
    by (simp add: no_margin_record_def)
  show ?thesis
    using missing typed margins
      evaluator_total_on_typed_records
        [where item = no_sales_record and rt = table_runtime and now = mid_march
           and raw_item = raw_zero_target]
      evaluator_total_on_typed_records
        [where item = no_margin_record and rt = table_runtime and now = mid_march
           and raw_item = raw_zero_target]
    by blast
qed

end
